theory Spec2Isabelle
  imports Main "HOL-Library.Word"
begin

section \<open>JavaScript values used by the services\<close>

text \<open>
  A JavaScript string is modelled as a \<open>string\<close>: the list of its UTF-8 bytes, so that
  \<open>length\<close> is the byte length \<open>Buffer.from(s)\<close> has. Case folding and trimming are
  modelled on ASCII: \<open>toLowerCase\<close> maps \<open>A\<close>..\<open>Z\<close>, \<open>trim\<close> strips the ASCII white
  space (tab, line feed, vertical tab, form feed, carriage return, space); other bytes
  are left as they are. A value that may be \<open>undefined\<close> or \<open>null\<close> is an \<open>option\<close>.
  The dictionary of a line's properties is read on its own properties only: property
  names and aliases that name members of \<open>Object.prototype\<close> are outside the model
  there. The SKU map is modelled with its prototype, see \<open>obj_get\<close>.
\<close>

datatype error =
    RangeError string   \<comment> \<open>thrown by \<open>crypto.timingSafeEqual\<close> on buffers of different length\<close>
  | Error string        \<comment> \<open>\<open>new Error(message)\<close>\<close>
  | Rejected string     \<comment> \<open>a failure of an external call (network, SDK, JSON decoding)\<close>
  | Undefined           \<comment> \<open>\<open>throw undefined\<close>\<close>

definition isSpace :: "char \<Rightarrow> bool" where
  "isSpace c = (c \<in> set [CHR 0x09, CHR 0x0A, CHR 0x0B, CHR 0x0C, CHR 0x0D, CHR '' ''])"

definition trim :: "string \<Rightarrow> string" where
  "trim s = rev (dropWhile isSpace (rev (dropWhile isSpace s)))"

definition lowerChar :: "char \<Rightarrow> char" where
  "lowerChar c =
     (case map_of (zip ''ABCDEFGHIJKLMNOPQRSTUVWXYZ'' ''abcdefghijklmnopqrstuvwxyz'') c of
        None \<Rightarrow> c
      | Some l \<Rightarrow> l)"

definition toLowerCase :: "string \<Rightarrow> string" where
  "toLowerCase s = map lowerChar s"

definition startsWith :: "string \<Rightarrow> string \<Rightarrow> bool" where
  "startsWith s p = (take (length p) s = p)"

text \<open>Truthiness of a possibly absent string: \<open>undefined\<close>, \<open>null\<close> and \<open>''\<close> are falsy.\<close>

definition truthy :: "string option \<Rightarrow> bool" where
  "truthy v = (case v of None \<Rightarrow> False | Some s \<Rightarrow> s \<noteq> [])"

text \<open>\<open>a || b\<close> and \<open>a ?? b\<close> on possibly absent strings.\<close>

definition js_or :: "string option \<Rightarrow> string option \<Rightarrow> string option" where
  "js_or a b = (if truthy a then a else b)"

definition nullish :: "'a option \<Rightarrow> 'a option \<Rightarrow> 'a option" where
  "nullish a b = (case a of None \<Rightarrow> b | Some v \<Rightarrow> Some v)"

text \<open>\<open>String(n)\<close> for an integer \<open>n\<close>: its decimal digits, with a minus sign below zero.\<close>

definition digit :: "nat \<Rightarrow> char" where
  "digit d = ''0123456789'' ! (d mod 10)"

fun string_of_nat :: "nat \<Rightarrow> string" where
  "string_of_nat n =
     (if n < 10 then [digit n] else string_of_nat (n div 10) @ [digit (n mod 10)])"

declare string_of_nat.simps [simp del]

definition string_of_int :: "int \<Rightarrow> string" where
  "string_of_int i = (if i < 0 then CHR ''-'' # string_of_nat (nat (- i)) else string_of_nat (nat i))"

text \<open>\<open>xs.join(sep)\<close>.\<close>

fun join :: "string \<Rightarrow> string list \<Rightarrow> string" where
  "join sep [] = []"
| "join sep [x] = x"
| "join sep (x # y # ys) = x @ sep @ join sep (y # ys)"

section \<open>Plain objects as dictionaries\<close>

text \<open>
  An object created by \<open>{}\<close> and filled with numbers. Its own properties are a map;
  \<open>obj[k]\<close> looks the key up on the object and then on \<open>Object.prototype\<close>, whose members
  are functions or, for \<open>__proto__\<close>, the prototype itself: none of them is \<open>null\<close> or
  \<open>undefined\<close>. \<open>obj[k] = n\<close> creates or replaces an own property, except for the key
  \<open>__proto__\<close>, whose setter ignores a number.
\<close>

definition objectPrototypeNames :: "string list" where
  "objectPrototypeNames =
     [''constructor'', ''__defineGetter__'', ''__defineSetter__'', ''hasOwnProperty'',
      ''__lookupGetter__'', ''__lookupSetter__'', ''isPrototypeOf'', ''propertyIsEnumerable'',
      ''toString'', ''valueOf'', ''__proto__'', ''toLocaleString'']"

datatype js_member =
    OwnNumber int        \<comment> \<open>the number stored under the key\<close>
  | Inherited string     \<comment> \<open>the member of \<open>Object.prototype\<close> of this name\<close>

definition obj_get :: "(string \<rightharpoonup> int) \<Rightarrow> string \<Rightarrow> js_member option" where
  "obj_get obj k =
     (case obj k of
        Some n \<Rightarrow> Some (OwnNumber n)
      | None \<Rightarrow> if k \<in> set objectPrototypeNames then Some (Inherited k) else None)"

definition obj_set :: "(string \<rightharpoonup> int) \<Rightarrow> string \<Rightarrow> int \<Rightarrow> (string \<rightharpoonup> int)" where
  "obj_set obj k n = (if k = ''__proto__'' then obj else obj(k \<mapsto> n))"

section \<open>Base64\<close>

text \<open>
  \<open>digest('base64')\<close> and \<open>toString('base64')\<close>: three bytes become four characters of
  the standard alphabet, with \<open>=\<close> padding at the end.
\<close>

definition b64_alphabet :: string where
  "b64_alphabet = ''ABCDEFGHIJKLMNOPQRSTUVWXYZabcdefghijklmnopqrstuvwxyz0123456789+/''"

definition b64_char :: "nat \<Rightarrow> char" where
  "b64_char n = b64_alphabet ! (n mod 64)"

fun base64 :: "nat list \<Rightarrow> string" where
  "base64 [] = []"
| "base64 [a] = [b64_char (a div 4), b64_char ((a mod 4) * 16), CHR ''='', CHR ''='']"
| "base64 [a, b] =
     [b64_char (a div 4), b64_char ((a mod 4) * 16 + b div 16),
      b64_char ((b mod 16) * 4), CHR ''='']"
| "base64 (a # b # c # rest) =
     [b64_char (a div 4), b64_char ((a mod 4) * 16 + b div 16),
      b64_char ((b mod 16) * 4 + c div 64), b64_char (c mod 64)] @ base64 rest"

text \<open>The 32 bytes of a SHA-256 digest, most significant first.\<close>

definition digest_bytes :: "256 word \<Rightarrow> nat list" where
  "digest_bytes w = map (\<lambda>i. unat (drop_bit (8 * (31 - i)) w) mod 256) [0..<32]"

section \<open>src/services/shopify.ts\<close>

text \<open>
  \<open>crypto.timingSafeEqual(a, b)\<close> compares two buffers of the same byte length and throws
  a \<open>RangeError\<close> when the lengths differ.
\<close>

definition timingSafeEqual :: "string \<Rightarrow> string \<Rightarrow> error + bool" where
  "timingSafeEqual a b =
     (if length a \<noteq> length b
      then Inl (RangeError ''Input buffers must have the same byte length'')
      else Inr (a = b))"

text \<open>
  \<open>verifyShopifyHmac\<close>. The keyed hash \<open>crypto.createHmac('sha256', secret).update(rawBody)\<close>
  is the parameter \<open>hmac\<close>; everything after it is the function's own code.
\<close>

definition verifyShopifyHmac ::
  "(string \<Rightarrow> string \<Rightarrow> 256 word) \<Rightarrow> string \<Rightarrow> string option \<Rightarrow> string \<Rightarrow> error + bool" where
  "verifyShopifyHmac hmac rawBody hmacHeader secret =
     (if \<not> truthy hmacHeader then Inr False
      else
        let digest = base64 (digest_bytes (hmac secret rawBody));
            a = digest;
            b = the hmacHeader
        in timingSafeEqual a b)"

section \<open>src/services/line-props.ts\<close>

text \<open>
  A line-item property \<open>{ name, value }\<close>; the same shape is used for the attributes of a
  partner order item.
\<close>

record property =
  p_name :: string
  p_value :: string

text \<open>
  \<open>KV = Record<string, string>\<close>: the own properties of the object in insertion order.
  Assigning to a key that exists keeps its place and replaces its value; a new key goes
  to the end. \<open>Object.keys\<close> lists the keys in this order, except that keys that are
  array indices come first; such keys have no upper-case letters, so the order in which
  two keys that differ only in case are listed is their insertion order.
\<close>

type_synonym KV = "(string \<times> string) list"

fun kv_set :: "KV \<Rightarrow> string \<Rightarrow> string \<Rightarrow> KV" where
  "kv_set [] k v = [(k, v)]"
| "kv_set ((k', v') # kvs) k v =
     (if k' = k then (k', v) # kvs else (k', v') # kv_set kvs k v)"

definition kv_get :: "KV \<Rightarrow> string \<Rightarrow> string option" where
  "kv_get obj k = map_of obj k"

definition extractProps :: "property list option \<Rightarrow> KV" where
  "extractProps props =
     foldl (\<lambda>out p. kv_set out (p_name p) (p_value p)) []
       (case props of None \<Rightarrow> [] | Some ps \<Rightarrow> ps)"

text \<open>
  \<open>findFirstKey\<close>: \<open>lowerToReal\<close> maps each lower-cased key to the last key that has this
  lower-cased form; the candidates are then tried in their own order, and a candidate
  whose key is empty or whose value is empty is passed over.
\<close>

definition lowerToReal :: "KV \<Rightarrow> string \<rightharpoonup> string" where
  "lowerToReal obj = foldl (\<lambda>m k. m(toLowerCase k \<mapsto> k)) Map.empty (map fst obj)"

fun firstCandidate :: "KV \<Rightarrow> (string \<rightharpoonup> string) \<Rightarrow> string list \<Rightarrow> string option" where
  "firstCandidate obj l2r [] = None"
| "firstCandidate obj l2r (cand # cands) =
     (case l2r (toLowerCase cand) of
        None \<Rightarrow> firstCandidate obj l2r cands
      | Some real \<Rightarrow>
          if real \<noteq> [] \<and> truthy (kv_get obj real) then kv_get obj real
          else firstCandidate obj l2r cands)"

definition findFirstKey :: "KV \<Rightarrow> string list \<Rightarrow> string option" where
  "findFirstKey obj candidates =
     (if candidates = [] then None else firstCandidate obj (lowerToReal obj) candidates)"

text \<open>
  The value of one slot of the key configuration: an array of strings, a string, or
  \<open>null\<close>/\<open>undefined\<close>. \<open>JSON.parse\<close> is a parameter: \<open>None\<close> when it throws.
\<close>

datatype json =
    JNull | JBool bool | JNum int | JStr string | JArr "json list" | JObj "(string \<times> json) list"

datatype keys_value = KeysArray "string list" | KeysString string | KeysNull

fun split_on :: "char \<Rightarrow> string \<Rightarrow> string list" where
  "split_on c [] = [[]]"
| "split_on c (x # xs) =
     (if x = c then [] # split_on c xs
      else (case split_on c xs of [] \<Rightarrow> [[x]] | w # ws \<Rightarrow> (x # w) # ws))"

fun json_strings :: "json list \<Rightarrow> string list" where
  "json_strings [] = []"
| "json_strings (JStr x # js) = x # json_strings js"
| "json_strings (_ # js) = json_strings js"

definition toArray :: "(string \<Rightarrow> json option) \<Rightarrow> keys_value \<Rightarrow> string list" where
  "toArray JSON_parse maybeArrOrJson =
     (case maybeArrOrJson of
        KeysArray xs \<Rightarrow> xs
      | _ \<Rightarrow>
          let s = (case maybeArrOrJson of KeysString t \<Rightarrow> trim t | _ \<Rightarrow> [])
          in if s = [] then []
             else (case JSON_parse s of
                     Some (JArr parsed) \<Rightarrow> json_strings parsed
                   | _ \<Rightarrow> filter (\<lambda>x. x \<noteq> []) (map trim (split_on CHR '','' s))))"

text \<open>
  \<open>KeyCfg\<close>: a field is \<open>None\<close> when the object has no such property (\<open>'topKeys' in cfg\<close> is
  false) and \<open>Some\<close> of its value otherwise.
\<close>

record KeyCfg =
  topKeys :: "keys_value option"
  middleKeys :: "keys_value option"
  bottomKeys :: "keys_value option"
  topKeysJson :: "keys_value option"
  middleKeysJson :: "keys_value option"
  bottomKeysJson :: "keys_value option"

record NormKeyCfg =
  norm_topKeys :: "string list"
  norm_middleKeys :: "string list"
  norm_bottomKeys :: "string list"

definition cfg_field :: "keys_value option \<Rightarrow> keys_value option \<Rightarrow> keys_value" where
  "cfg_field keys keysJson =
     (case keys of Some v \<Rightarrow> v | None \<Rightarrow> (case keysJson of Some v \<Rightarrow> v | None \<Rightarrow> KeysNull))"

definition normalizeKeyCfg :: "(string \<Rightarrow> json option) \<Rightarrow> KeyCfg \<Rightarrow> NormKeyCfg" where
  "normalizeKeyCfg JSON_parse cfg =
     (let top = cfg_field (topKeys cfg) (topKeysJson cfg);
          mid = cfg_field (middleKeys cfg) (middleKeysJson cfg);
          bot = cfg_field (bottomKeys cfg) (bottomKeysJson cfg)
      in \<lparr> norm_topKeys = toArray JSON_parse top,
           norm_middleKeys = toArray JSON_parse mid,
           norm_bottomKeys = toArray JSON_parse bot \<rparr>)"

record DesignBits =
  top_text :: "string option"       \<comment> \<open>\<open>top\<close>\<close>
  middle_text :: "string option"    \<comment> \<open>\<open>middle\<close>\<close>
  bottom_text :: "string option"    \<comment> \<open>\<open>bottom\<close>\<close>
  printJobId :: "string option"
  thumb :: "string option"

definition getDesignBits :: "(string \<Rightarrow> json option) \<Rightarrow> KV \<Rightarrow> KeyCfg \<Rightarrow> DesignBits" where
  "getDesignBits JSON_parse obj cfg =
     (let norm = normalizeKeyCfg JSON_parse cfg
      in \<lparr> top_text = nullish (findFirstKey obj (norm_topKeys norm)) (kv_get obj ''Top line''),
           middle_text = nullish (findFirstKey obj (norm_middleKeys norm)) (kv_get obj ''Middle line''),
           bottom_text = nullish (findFirstKey obj (norm_bottomKeys norm)) (kv_get obj ''Bottom line''),
           printJobId =
             js_or (kv_get obj ''_printJobId'')
               (js_or (kv_get obj ''_printjobid'') (kv_get obj ''print_job_ref'')),
           thumb =
             js_or (kv_get obj ''_thumb'')
               (js_or (kv_get obj ''_thumbnail'') (kv_get obj ''thumbnail'')) \<rparr>)"

subsection \<open>The slot rule, stated on the dictionary\<close>




section \<open>src/services/kornitx.ts\<close>

text \<open>
  A line item of the order (\<open>ShopifyOrder['line_items'][number]\<close>). \<open>li_quantity\<close> is \<open>None\<close>
  when the field is absent; \<open>li_sku\<close> is \<open>None\<close> for \<open>null\<close>; \<open>li_properties\<close> is \<open>None\<close> when
  the line has no property list. Numbers are integers.
\<close>

record line_item =
  li_id :: int
  li_quantity :: "int option"
  li_title :: string
  li_sku :: "string option"
  li_properties :: "property list option"

record Candidate =
  li :: line_item
  bits :: DesignBits

record KxOrderItem =
  external_ref :: string
  quantity :: int
  kx_type :: nat                       \<comment> \<open>\<open>type\<close>: 2 = print job, 5 = textual product\<close>
  print_job_ref :: "string option"
  sku :: "string option"
  description :: string
  textual_product_id :: "js_member option"
  attributes :: "property list"

text \<open>
  Of the payload, the external reference and the items are modelled; the customer,
  shipping and date fields are copied from the order and read by nothing below.
\<close>

record KxOrderPayload =
  payload_external_ref :: string
  items :: "KxOrderItem list"

record order =
  order_id :: int
  order_name :: "string option"

definition props_of :: "line_item \<Rightarrow> property list" where
  "props_of l = (case li_properties l of None \<Rightarrow> [] | Some ps \<Rightarrow> ps)"

fun userFacingLoop :: "property list \<Rightarrow> bool" where
  "userFacingLoop [] = False"
| "userFacingLoop (p # ps) =
     (let name = trim (p_name p); val = trim (p_value p)
      in if name = [] \<or> val = [] then userFacingLoop ps
         else if startsWith name ''_'' then userFacingLoop ps
         else True)"

definition hasUserFacingProps :: "line_item \<Rightarrow> bool" where
  "hasUserFacingProps l = userFacingLoop (props_of l)"

fun passthroughLoop :: "property list \<Rightarrow> property list \<Rightarrow> string set \<Rightarrow> property list \<times> string set" where
  "passthroughLoop [] attrs seen = (attrs, seen)"
| "passthroughLoop (p # ps) attrs seen =
     (let name = trim (p_name p); val = trim (p_value p)
      in if name = [] \<or> val = [] then passthroughLoop ps attrs seen
         else if startsWith name ''_'' then passthroughLoop ps attrs seen
         else let key = toLowerCase name
              in if key \<in> seen then passthroughLoop ps attrs seen
                 else passthroughLoop ps (attrs @ [\<lparr> p_name = name, p_value = val \<rparr>])
                        (insert key seen))"

definition passthroughAttributes :: "line_item \<Rightarrow> string option \<Rightarrow> property list" where
  "passthroughAttributes l thumb_url =
     (case passthroughLoop (props_of l) [] {} of
        (attrs, seen) \<Rightarrow>
          if truthy thumb_url \<and> ''_thumb'' \<notin> seen
          then attrs @ [\<lparr> p_name = ''_thumb'', p_value = the thumb_url \<rparr>]
          else attrs)"

definition attributesForType2 :: "string option \<Rightarrow> property list" where
  "attributesForType2 thumb_url =
     (if truthy thumb_url then [\<lparr> p_name = ''_thumb'', p_value = the thumb_url \<rparr>] else [])"

text \<open>\<open>li.sku || ''\<close> and \<open>Number(li.quantity || 1)\<close>: zero is falsy, as the absent value is.\<close>

definition sku_or_empty :: "line_item \<Rightarrow> string" where
  "sku_or_empty l = (case li_sku l of None \<Rightarrow> [] | Some s \<Rightarrow> s)"

definition quantity_or_1 :: "line_item \<Rightarrow> int" where
  "quantity_or_1 l = (case li_quantity l of None \<Rightarrow> 1 | Some q \<Rightarrow> if q = 0 then 1 else q)"

text \<open>
  One turn of the loop over the candidates in \<open>buildKxOrderPayload\<close>: the items after the
  candidate has been looked at.
\<close>

definition pushCandidate ::
  "(string \<rightharpoonup> int) option \<Rightarrow> int option \<Rightarrow> KxOrderItem list \<Rightarrow> Candidate \<Rightarrow> KxOrderItem list" where
  "pushCandidate skuToProductId defaultProductId its c =
     (let normSku = toLowerCase (trim (sku_or_empty (li c)));
          mappedPid = (case skuToProductId of None \<Rightarrow> None | Some m \<Rightarrow> obj_get m normSku);
          tpid = nullish mappedPid (map_option OwnNumber defaultProductId);
          hasPrintJob = truthy (printJobId (bits c))
      in if hasPrintJob then
           its @ [\<lparr> external_ref = string_of_int (li_id (li c)),
                    quantity = quantity_or_1 (li c),
                    kx_type = 2,
                    print_job_ref = Some (the (printJobId (bits c))),
                    sku = li_sku (li c),
                    description = li_title (li c),
                    textual_product_id = tpid,
                    attributes = attributesForType2 (thumb (bits c)) \<rparr>]
         else if hasUserFacingProps (li c) then
           (let attrs = passthroughAttributes (li c) (thumb (bits c))
            in if length attrs > 0 then
                 its @ [\<lparr> external_ref = string_of_int (li_id (li c)),
                          quantity = quantity_or_1 (li c),
                          kx_type = 5,
                          print_job_ref = None,
                          sku = li_sku (li c),
                          description = li_title (li c),
                          textual_product_id = tpid,
                          attributes = attrs \<rparr>]
               else its)
         else its)"

definition externalId :: "order \<Rightarrow> string" where
  "externalId ord =
     (if truthy (order_name ord) then the (order_name ord) else string_of_int (order_id ord))"

definition buildKxOrderPayload ::
  "order \<Rightarrow> Candidate list \<Rightarrow> (string \<rightharpoonup> int) option \<Rightarrow> int option \<Rightarrow> KxOrderPayload" where
  "buildKxOrderPayload ord cands skuToProductId defaultProductId =
     \<lparr> payload_external_ref = externalId ord,
       items = foldl (pushCandidate skuToProductId defaultProductId) [] cands \<rparr>"

section \<open>src/services/retry.ts\<close>

text \<open>
  The options of \<open>withRetry\<close>. \<open>attempts\<close> is a count and the two delays are whole
  milliseconds: natural numbers that a double holds exactly, \<open>attempts\<close> at most \<open>2 ^ 53\<close>
  (up to there the loop counter counts exactly). \<open>onRetry\<close> runs in the state and may
  change it; it returns normally (\<open>Inr ()\<close>) or throws a value (\<open>Inl\<close>, with \<open>None\<close> for
  \<open>undefined\<close>).
\<close>

record ('e, 's) RetryOptions =
  attempts :: "nat option"
  baseMs :: "nat option"
  maxMs :: "nat option"
  jitter :: "bool option"
  onRetry :: "('e \<Rightarrow> nat \<Rightarrow> 's \<Rightarrow> ('e option + unit) \<times> 's) option"

text \<open>
  What a run of \<open>withRetry\<close> did, in order: each call of the operation with the attempt
  number and its outcome, and each wait with the computed backoff and the delay asked
  for; \<open>None\<close> is \<open>NaN\<close>.
\<close>

datatype ('e, 'a) retry_event =
    Called nat "'e + 'a"
  | Slept "nat option" "nat option"

definition or_default :: "'a option \<Rightarrow> 'a \<Rightarrow> 'a" where
  "or_default v d = (case v of None \<Rightarrow> d | Some x \<Rightarrow> x)"

text \<open>
  \<open>Math.min(maxMs, baseMs * 2 ** (attempt - 1))\<close> in double arithmetic. The power is exact
  up to \<open>2 ** 1023\<close> and is \<open>Infinity\<close> from \<open>2 ** 1024\<close> on. A product that overflows is
  \<open>Infinity\<close> and the minimum is then \<open>maxMs\<close>, as it is for the exact product; but
  \<open>0 * Infinity\<close> is \<open>NaN\<close>, and so is the minimum.
\<close>

definition backoffMs :: "nat \<Rightarrow> nat \<Rightarrow> nat \<Rightarrow> nat option" where
  "backoffMs cap base attempt =
     (if base = 0 \<and> 1024 \<le> attempt - 1 then None
      else Some (min cap (base * 2 ^ (attempt - 1))))"

text \<open>
  The loop of \<open>withRetry\<close>. The operation \<open>fn\<close> takes the state and returns its outcome
  (\<open>Inl\<close> when the promise rejects) and the state after it. \<open>onRetry\<close> is called inside
  the \<open>catch\<close> block: what it throws leaves \<open>withRetry\<close> at once. With jitter the delay is
  \<open>Math.floor(backoff * (0.5 + Math.random() * 0.5))\<close>: the parameter \<open>jitterDelay\<close> gives
  it for the attempt and a backoff that is a number; for \<open>NaN\<close> it is \<open>NaN\<close>. Leaving the
  loop throws \<open>lastErr\<close>, which is \<open>undefined\<close> (\<open>None\<close>) when the operation was never
  called.
\<close>

definition observe ::
  "('e \<Rightarrow> nat \<Rightarrow> 's \<Rightarrow> ('e option + unit) \<times> 's) option \<Rightarrow> 'e \<Rightarrow> nat \<Rightarrow> 's \<Rightarrow>
   ('e option + unit) \<times> 's" where
  "observe notify err attempt s =
     (case notify of None \<Rightarrow> (Inr (), s) | Some f \<Rightarrow> f err attempt s)"

definition delayMs :: "(nat \<Rightarrow> nat \<Rightarrow> nat) \<Rightarrow> bool \<Rightarrow> nat \<Rightarrow> nat option \<Rightarrow> nat option" where
  "delayMs jitterDelay jit attempt backoff =
     (case backoff of
        None \<Rightarrow> None
      | Some b \<Rightarrow> Some (if jit then jitterDelay attempt b else b))"

function retryLoop ::
  "(nat \<Rightarrow> nat \<Rightarrow> nat) \<Rightarrow> ('s \<Rightarrow> ('e + 'a) \<times> 's) \<Rightarrow>
   ('e \<Rightarrow> nat \<Rightarrow> 's \<Rightarrow> ('e option + unit) \<times> 's) option \<Rightarrow>
   nat \<Rightarrow> nat \<Rightarrow> nat \<Rightarrow> bool \<Rightarrow> nat \<Rightarrow> 'e option \<Rightarrow> 's \<Rightarrow> ('e, 'a) retry_event list \<Rightarrow>
   ('e option + 'a) \<times> 's \<times> ('e, 'a) retry_event list" where
  "retryLoop jitterDelay fn notify n base cap jit attempt lastErr s tr =
     (if attempt \<le> n then
        (case fn s of
           (Inr v, s1) \<Rightarrow> (Inr v, s1, tr @ [Called attempt (Inr v)])
         | (Inl err, s1) \<Rightarrow>
             (case observe notify err attempt s1 of
                (Inl x, s2) \<Rightarrow> (Inl x, s2, tr @ [Called attempt (Inl err)])
              | (Inr u, s2) \<Rightarrow>
                  let tr1 = tr @ [Called attempt (Inl err)]
                  in if attempt = n then (Inl (Some err), s2, tr1)
                     else
                       let backoff = backoffMs cap base attempt;
                           delay = delayMs jitterDelay jit attempt backoff
                       in retryLoop jitterDelay fn notify n base cap jit (attempt + 1) (Some err)
                            s2 (tr1 @ [Slept backoff delay])))
      else (Inl lastErr, s, tr))"
  by pat_completeness auto
termination
  by (relation "measure (\<lambda>(jd, fn, notify, n, base, cap, jit, attempt, rest). Suc n - attempt)")
     auto

declare retryLoop.simps [simp del]

definition withRetry ::
  "(nat \<Rightarrow> nat \<Rightarrow> nat) \<Rightarrow> ('s \<Rightarrow> ('e + 'a) \<times> 's) \<Rightarrow> ('e, 's) RetryOptions \<Rightarrow> 's \<Rightarrow>
   ('e option + 'a) \<times> 's \<times> ('e, 'a) retry_event list" where
  "withRetry jitterDelay fn opts s =
     retryLoop jitterDelay fn (onRetry opts)
       (or_default (attempts opts) 5) (or_default (baseMs opts) 1000)
       (or_default (maxMs opts) 8000) (or_default (jitter opts) True) 1 None s []"

text \<open>
  \<open>setTimeout(r, delay)\<close> waits \<open>delay\<close> milliseconds, and one millisecond when the delay
  is \<open>NaN\<close>, below 1 or above 2147483647.
\<close>

definition timeoutMs :: "nat option \<Rightarrow> nat" where
  "timeoutMs delay =
     (case delay of
        None \<Rightarrow> 1
      | Some d \<Rightarrow> if d < 1 \<or> 2147483647 < d then 1 else d)"

text \<open>The calls and the waits of a run.\<close>

fun calls :: "('e, 'a) retry_event list \<Rightarrow> ('e + 'a) list" where
  "calls [] = []"
| "calls (Called k r # tr) = r # calls tr"
| "calls (Slept b d # tr) = calls tr"

fun backoffs :: "('e, 'a) retry_event list \<Rightarrow> nat option list" where
  "backoffs [] = []"
| "backoffs (Called k r # tr) = backoffs tr"
| "backoffs (Slept b d # tr) = b # backoffs tr"

text \<open>An observer that never throws; no observer is one.\<close>

definition quiet ::
  "('e \<Rightarrow> nat \<Rightarrow> 's \<Rightarrow> ('e option + unit) \<times> 's) option \<Rightarrow> bool" where
  "quiet notify = (\<forall>err k s. fst (observe notify err k s) = Inr ())"

text \<open>
  The runs the loop can make from attempt \<open>a\<close>, as a relation between the events and
  the outcome: it ends at once when the attempts are used up, after a call that succeeds,
  after the failure of the last attempt, or (when the observer may throw, \<open>thr\<close>) after
  a failure at which the observer throws; after any other failure it waits the backoff
  of this attempt and goes on with the next.
\<close>

inductive retryRun ::
  "bool \<Rightarrow> nat \<Rightarrow> nat \<Rightarrow> nat \<Rightarrow> nat \<Rightarrow> 'e option \<Rightarrow> ('e, 'a) retry_event list \<Rightarrow>
   ('e option + 'a) \<Rightarrow> bool"
  for thr n base cap where
    run_done: "n < a \<Longrightarrow> retryRun thr n base cap a lastErr [] (Inl lastErr)"
  | run_ok: "a \<le> n \<Longrightarrow> retryRun thr n base cap a lastErr [Called a (Inr v)] (Inr v)"
  | run_last: "a = n \<Longrightarrow>
       retryRun thr n base cap a lastErr [Called a (Inl err)] (Inl (Some err))"
  | run_thrown: "thr \<Longrightarrow> a \<le> n \<Longrightarrow>
       retryRun thr n base cap a lastErr [Called a (Inl err)] (Inl x)"
  | run_again: "a < n \<Longrightarrow> retryRun thr n base cap (Suc a) (Some err) ext r \<Longrightarrow>
       retryRun thr n base cap a lastErr
         (Called a (Inl err) # Slept (backoffMs cap base a) d # ext) r"

section \<open>src/aws/dynamo.ts and src/aws/secrets.ts\<close>

record Client =
  client_slug :: string
  client_shopDomain :: string
  client_secretName :: string

record Secrets =
  shopifyWebhookKey :: string
  kxCompanyRefId :: string
  kxApiKey :: string

record ProcessedItem =
  kxExternalId :: string
  processedAt :: string

text \<open>
  An item of the SKU table as \<open>BatchGet\<close> returns it; \<open>item_product_id\<close> is \<open>None\<close> when
  \<open>Number(item.product_id)\<close> is not finite.
\<close>

record SkuItem =
  item_sku :: string
  item_product_id :: "int option"

record kx_request =
  url :: string
  authorization :: string
  body :: KxOrderPayload

record http_response =
  ok :: bool
  status :: nat
  statusText :: string
  text_body :: "string option"     \<comment> \<open>\<open>res.text()\<close>, \<open>None\<close> when reading it fails\<close>
  json_body :: "error + json"      \<comment> \<open>\<open>res.json()\<close>\<close>

text \<open>
  The services the worker calls but does not change: the client table, the secret store
  (the outcome of \<open>getClientSecrets\<close>, \<open>Inl\<close> when the call or the decoding throws), the
  batch read of the SKU table, the partner API (\<open>fetch\<close>, by the number of requests sent
  before), the clock, the jitter and \<open>process.env.KX_BASE_URL\<close>.
\<close>

record env =
  CLIENTS :: "string \<rightharpoonup> Client"
  clientSecrets :: "string \<Rightarrow> error + Secrets"
  batchGet :: "string \<Rightarrow> string list \<Rightarrow> error + SkuItem list"
  fetch :: "nat \<Rightarrow> kx_request \<Rightarrow> error + http_response"
  now :: string
  jitterMs :: "nat \<Rightarrow> nat \<Rightarrow> nat"
  KX_BASE_URL :: "string option"

text \<open>
  What the worker changes: the table of processed orders, the requests sent to the
  partner API, and the delays it has slept. The table is read and written without
  failure.
\<close>

record world =
  PROCESSED :: "string \<rightharpoonup> ProcessedItem"
  kx_requests :: "kx_request list"
  slept :: "nat list"

definition getClientBySlug :: "env \<Rightarrow> string \<Rightarrow> Client option" where
  "getClientBySlug e slug = CLIENTS e slug"

definition getClientSecrets :: "env \<Rightarrow> string \<Rightarrow> error + Secrets" where
  "getClientSecrets e secretName = clientSecrets e secretName"

definition shopOrderKey :: "string \<Rightarrow> int \<Rightarrow> string" where
  "shopOrderKey shopDomain orderId = shopDomain @ ''#'' @ string_of_int orderId"

definition isProcessed :: "world \<Rightarrow> string \<Rightarrow> int \<Rightarrow> bool" where
  "isProcessed w shopDomain orderId = (PROCESSED w (shopOrderKey shopDomain orderId) \<noteq> None)"

definition markProcessed :: "env \<Rightarrow> string \<Rightarrow> int \<Rightarrow> string \<Rightarrow> world \<Rightarrow> world" where
  "markProcessed e shopDomain orderId kxId w =
     w\<lparr> PROCESSED := (PROCESSED w)(shopOrderKey shopDomain orderId \<mapsto>
           \<lparr> kxExternalId = kxId, processedAt = now e \<rparr>) \<rparr>"

text \<open>\<open>Array.from(new Set(xs))\<close>: the first occurrence of each element, in order.\<close>

fun uniq :: "'a list \<Rightarrow> 'a list \<Rightarrow> 'a list" where
  "uniq seen [] = []"
| "uniq seen (x # xs) = (if x \<in> set seen then uniq seen xs else x # uniq (x # seen) xs)"

definition addSkuItem :: "(string \<rightharpoonup> int) \<Rightarrow> SkuItem \<Rightarrow> (string \<rightharpoonup> int)" where
  "addSkuItem out item =
     (let s = toLowerCase (item_sku item)
      in case item_product_id item of
           None \<Rightarrow> out
         | Some pid \<Rightarrow> if s \<noteq> [] then obj_set out s pid else out)"

definition getProductIdsForSkus :: "env \<Rightarrow> string \<Rightarrow> string list \<Rightarrow> error + (string \<rightharpoonup> int)" where
  "getProductIdsForSkus e slug skus =
     (let normalized = uniq [] (map (\<lambda>s. toLowerCase (trim s)) (filter (\<lambda>s. s \<noteq> []) skus))
      in if length normalized = 0 then Inr Map.empty
         else (case batchGet e slug normalized of
                 Inl err \<Rightarrow> Inl err
               | Inr its \<Rightarrow> Inr (foldl addSkuItem Map.empty its)))"

section \<open>The partner API client (src/services/kornitx.ts)\<close>

definition postKornitXOrder ::
  "env \<Rightarrow> string option \<Rightarrow> string \<Rightarrow> string \<Rightarrow> KxOrderPayload \<Rightarrow> world \<Rightarrow> (error + json) \<times> world" where
  "postKornitXOrder e baseUrl companyRefId apiKey payload w =
     (let u = (if truthy baseUrl then the baseUrl else ''https://api-sl-2-2.kornitx.net'') @ ''/order'';
          auth = base64 (map of_char (companyRefId @ '':'' @ apiKey));
          req = \<lparr> url = u, authorization = ''Basic '' @ auth, body = payload \<rparr>;
          w1 = w\<lparr> kx_requests := kx_requests w @ [req] \<rparr>
      in case fetch e (length (kx_requests w)) req of
           Inl err \<Rightarrow> (Inl err, w1)
         | Inr res \<Rightarrow>
             if \<not> ok res then
               (Inl (Error (''KX '' @ string_of_nat (status res) @ '' '' @ statusText res @ '' - ''
                            @ or_default (text_body res) [])), w1)
             else (json_body res, w1))"

section \<open>functions/worker/handler.ts\<close>

record msg =
  slug :: string
  shopDomain :: string
  secretName :: string
  msg_order :: order
  candidates :: "Candidate list"

text \<open>The worker's own copy of \<open>hasUserFacingProps\<close>.\<close>

fun workerUserFacingLoop :: "property list \<Rightarrow> bool" where
  "workerUserFacingLoop [] = False"
| "workerUserFacingLoop (p # ps) =
     (let name = trim (p_name p); val = trim (p_value p)
      in if name = [] \<or> val = [] then workerUserFacingLoop ps
         else if startsWith name ''_'' then workerUserFacingLoop ps
         else True)"

definition workerHasUserFacingProps :: "line_item \<Rightarrow> bool" where
  "workerHasUserFacingProps l = workerUserFacingLoop (props_of l)"

definition collectSkus :: "Candidate list \<Rightarrow> string list" where
  "collectSkus cands =
     foldl (\<lambda>skus c. let s = trim (sku_or_empty (li c)) in if s \<noteq> [] then skus @ [s] else skus)
       [] cands"

definition isPersonalised :: "Candidate \<Rightarrow> bool" where
  "isPersonalised c =
     (let hasPrintJob = truthy (printJobId (bits c))
      in if hasPrintJob then True else workerHasUserFacingProps (li c))"

definition missingSkus :: "Candidate list \<Rightarrow> (string \<rightharpoonup> int) \<Rightarrow> string list" where
  "missingSkus personalised skuToProductId =
     filter (\<lambda>s. s \<noteq> [] \<and> obj_get skuToProductId s = None)
       (map (\<lambda>p. toLowerCase (trim (sku_or_empty (li p)))) personalised)"

text \<open>
  The retried submission of the handler: \<open>withRetry\<close> around \<open>postKornitXOrder\<close> with five
  attempts, a base of 1000 ms and a cap of 8000 ms; \<open>onRetry\<close> only logs and returns. The
  times waited are added to the world.
\<close>

definition thrown :: "error option \<Rightarrow> error" where
  "thrown v = (case v of None \<Rightarrow> Undefined | Some err \<Rightarrow> err)"

definition submitWithRetry :: "env \<Rightarrow> Secrets \<Rightarrow> KxOrderPayload \<Rightarrow> world \<Rightarrow> (error + json) \<times> world" where
  "submitWithRetry e secrets kxPayload w =
     (case withRetry (jitterMs e)
             (postKornitXOrder e (KX_BASE_URL e) (kxCompanyRefId secrets) (kxApiKey secrets) kxPayload)
             \<lparr> attempts = Some 5, baseMs = Some 1000, maxMs = Some 8000, jitter = None,
               onRetry = Some (\<lambda>err attempt s. (Inr (), s)) \<rparr> w of
        (r, w1, tr) \<Rightarrow>
          let w2 = w1\<lparr> slept := slept w1 @ [timeoutMs d. Slept b d \<leftarrow> tr] \<rparr>
          in (case r of Inl err \<Rightarrow> (Inl (thrown err), w2) | Inr resp \<Rightarrow> (Inr resp, w2)))"

text \<open>
  The body of the loop of \<open>handler\<close> for one record, after \<open>JSON.parse\<close> of its body:
  \<open>Inr ()\<close> when the record is done (\<open>continue\<close> or the end of the body), \<open>Inl\<close> when the
  \<open>catch\<close> block rethrows.
\<close>

definition processRecord :: "env \<Rightarrow> msg \<Rightarrow> world \<Rightarrow> (error + unit) \<times> world" where
  "processRecord e m w =
     (let ord = msg_order m in
      if isProcessed w (shopDomain m) (order_id ord) then (Inr (), w)
      else
       (case getClientBySlug e (slug m) of
          None \<Rightarrow> (Inl (Error ''Client not found''), w)
        | Some client \<Rightarrow>
       (case getClientSecrets e (secretName m) of
          Inl err \<Rightarrow> (Inl err, w)
        | Inr secrets \<Rightarrow>
       (case getProductIdsForSkus e (slug m) (collectSkus (candidates m)) of
          Inl err \<Rightarrow> (Inl err, w)
        | Inr skuToProductId \<Rightarrow>
       (let personalised = filter isPersonalised (candidates m) in
        if length personalised = 0 then
          (Inr (), markProcessed e (shopDomain m) (order_id ord) (externalId ord) w)
        else
       (let missing = missingSkus personalised skuToProductId in
        if length missing > 0 then
          (Inl (Error (''Missing product_id mapping: '' @ join '', '' missing)), w)
        else
       (let kxPayload = buildKxOrderPayload ord (candidates m) (Some skuToProductId) None in
        if length (items kxPayload) = 0 then
          (Inr (), markProcessed e (shopDomain m) (order_id ord) (externalId ord) w)
        else
       (case submitWithRetry e secrets kxPayload w of
          (Inl err, w1) \<Rightarrow> (Inl err, w1)
        | (Inr kxResp, w1) \<Rightarrow>
            (Inr (), markProcessed e (shopDomain m) (order_id ord) (externalId ord) w1)))))))))"

text \<open>\<open>handler\<close>: the records in order; the first error ends the invocation.\<close>

fun handler :: "env \<Rightarrow> msg list \<Rightarrow> world \<Rightarrow> (error + unit) \<times> world" where
  "handler e [] w = (Inr (), w)"
| "handler e (m # ms) w =
     (case processRecord e m w of
        (Inl err, w1) \<Rightarrow> (Inl err, w1)
      | (Inr u, w1) \<Rightarrow> handler e ms w1)"

section \<open>Example values\<close>

definition no_bits :: DesignBits where
  "no_bits = \<lparr> top_text = None, middle_text = None, bottom_text = None,
               printJobId = None, thumb = None \<rparr>"

definition example_order :: order where
  "example_order = \<lparr> order_id = 1001, order_name = Some ''#1001'' \<rparr>"

definition print_job_line :: Candidate where
  "print_job_line =
     \<lparr> li = \<lparr> li_id = 11, li_quantity = Some 2, li_title = ''Mug'', li_sku = Some ''ABC-1'',
              li_properties = Some [\<lparr> p_name = ''_printJobId'', p_value = ''PJ1'' \<rparr>,
                                    \<lparr> p_name = ''Top line'', p_value = ''HELLO'' \<rparr>] \<rparr>,
       bits = no_bits \<lparr> top_text := Some ''HELLO'', printJobId := Some ''PJ1'' \<rparr> \<rparr>"

definition private_only_line :: Candidate where
  "private_only_line =
     \<lparr> li = \<lparr> li_id = 12, li_quantity = Some 1, li_title = ''Plain'', li_sku = Some ''ABC-2'',
              li_properties = Some [\<lparr> p_name = ''_note'', p_value = ''x'' \<rparr>] \<rparr>,
       bits = no_bits \<rparr>"

definition zero_quantity_line :: Candidate where
  "zero_quantity_line =
     \<lparr> li = \<lparr> li_id = 13, li_quantity = Some 0, li_title = ''Label'', li_sku = Some ''ABC-3'',
              li_properties = Some [\<lparr> p_name = ''Top line'', p_value = ''HELLO'' \<rparr>] \<rparr>,
       bits = no_bits \<lparr> top_text := Some ''HELLO'' \<rparr> \<rparr>"

definition negative_quantity_line :: Candidate where
  "negative_quantity_line =
     \<lparr> li = \<lparr> li_id = 14, li_quantity = Some (- 3), li_title = ''Label'', li_sku = Some ''ABC-3'',
              li_properties = Some [\<lparr> p_name = ''Top line'', p_value = ''HELLO'' \<rparr>] \<rparr>,
       bits = no_bits \<lparr> top_text := Some ''HELLO'' \<rparr> \<rparr>"

definition blank_value_line :: Candidate where
  "blank_value_line =
     \<lparr> li = \<lparr> li_id = 15, li_quantity = Some 1, li_title = ''Label'', li_sku = Some ''ABC-3'',
              li_properties = Some [\<lparr> p_name = ''Text'', p_value = '' '' \<rparr>] \<rparr>,
       bits = no_bits \<rparr>"





definition flaky :: "nat \<Rightarrow> (string + nat) \<times> nat" where
  "flaky k = (if k < 2 then Inl ''timeout'' else Inr 42, Suc k)"

definition always_failing :: "nat \<Rightarrow> (nat + nat) \<times> nat" where
  "always_failing k = (Inl k, Suc k)"

definition three_attempts :: "('e, nat) RetryOptions" where
  "three_attempts = \<lparr> attempts = Some 3, baseMs = None, maxMs = Some 1500,
                       jitter = Some False, onRetry = None \<rparr>"

definition throwing_observer :: "(nat, nat) RetryOptions" where
  "throwing_observer = \<lparr> attempts = Some 3, baseMs = None, maxMs = Some 1500,
                          jitter = Some False,
                          onRetry = Some (\<lambda>err attempt s. (Inl (Some 99), s)) \<rparr>"

definition no_jitter :: "nat \<Rightarrow> nat \<Rightarrow> nat" where
  "no_jitter attempt backoff = backoff"

definition demo_secrets :: Secrets where
  "demo_secrets = \<lparr> shopifyWebhookKey = ''whk'', kxCompanyRefId = ''77'', kxApiKey = ''key'' \<rparr>"

definition ok_response :: http_response where
  "ok_response = \<lparr> ok = True, status = 200, statusText = ''OK'', text_body = Some ''{}'',
                    json_body = Inr (JObj []) \<rparr>"

definition error_response :: http_response where
  "error_response = \<lparr> ok = False, status = 500, statusText = ''Server Error'',
                       text_body = Some ''down'', json_body = Inl (Rejected ''not json'') \<rparr>"

definition demo_env :: env where
  "demo_env =
     \<lparr> CLIENTS = [''acme'' \<mapsto> \<lparr> client_slug = ''acme'', client_shopDomain = ''acme.myshopify.com'',
                                 client_secretName = ''acme/secret'' \<rparr>],
       clientSecrets = (\<lambda>n. if n = ''acme/secret'' then Inr demo_secrets
                             else Inl (Rejected ''ResourceNotFoundException'')),
       batchGet = (\<lambda>sl keys. Inr (if ''abc-1'' \<in> set keys
                                     then [\<lparr> item_sku = ''abc-1'', item_product_id = Some 42 \<rparr>]
                                     else [])),
       fetch = (\<lambda>k req. Inr ok_response),
       now = ''2025-01-01T00:00:00.000Z'',
       jitterMs = no_jitter,
       KX_BASE_URL = None \<rparr>"

definition failing_env :: env where
  "failing_env = demo_env \<lparr> fetch := (\<lambda>k req. Inr error_response) \<rparr>"

definition empty_world :: world where
  "empty_world = \<lparr> PROCESSED = Map.empty, kx_requests = [], slept = [] \<rparr>"

definition no_sku_line :: Candidate where
  "no_sku_line =
     \<lparr> li = \<lparr> li_id = 16, li_quantity = Some 1, li_title = ''Mug'', li_sku = None,
              li_properties = Some [\<lparr> p_name = ''_printJobId'', p_value = ''PJ1'' \<rparr>] \<rparr>,
       bits = no_bits \<lparr> printJobId := Some ''PJ1'' \<rparr> \<rparr>"

definition unmapped_line :: Candidate where
  "unmapped_line =
     \<lparr> li = \<lparr> li_id = 17, li_quantity = Some 1, li_title = ''Label'', li_sku = Some '' XYZ-9 '',
              li_properties = Some [\<lparr> p_name = ''Top line'', p_value = ''HELLO'' \<rparr>,
                                    \<lparr> p_name = ''Bottom line'', p_value = ''IVC'' \<rparr>] \<rparr>,
       bits = no_bits \<lparr> top_text := Some ''HELLO'', bottom_text := Some ''IVC'' \<rparr> \<rparr>"

definition constructor_line :: Candidate where
  "constructor_line =
     \<lparr> li = \<lparr> li_id = 18, li_quantity = Some 1, li_title = ''Mug'', li_sku = Some ''Constructor'',
              li_properties = Some [\<lparr> p_name = ''_printJobId'', p_value = ''PJ2'' \<rparr>] \<rparr>,
       bits = no_bits \<lparr> printJobId := Some ''PJ2'' \<rparr> \<rparr>"

definition demo_msg :: "Candidate list \<Rightarrow> msg" where
  "demo_msg cs = \<lparr> slug = ''acme'', shopDomain = ''acme.myshopify.com'',
                    secretName = ''acme/secret'', msg_order = example_order, candidates = cs \<rparr>"

definition processed_world :: world where
  "processed_world =
     empty_world \<lparr> PROCESSED := [''acme.myshopify.com#1001'' \<mapsto>
        \<lparr> kxExternalId = ''#1001'', processedAt = ''2024-12-31T23:59:59.000Z'' \<rparr>] \<rparr>"

definition demo_request :: "KxOrderPayload \<Rightarrow> kx_request" where
  "demo_request p = \<lparr> url = ''https://api-sl-2-2.kornitx.net/order'',
                       authorization = ''Basic Nzc6a2V5'', body = p \<rparr>"

section \<open>Signature verifier: properties\<close>

lemma length_base64: "length (base64 bs) = 4 * ((length bs + 2) div 3)"
proof (induction bs rule: base64.induct)
  case (4 a b c rest)
  have "(length rest + 5) div 3 = Suc ((length rest + 2) div 3)" by arith
  with 4 show ?case by (simp add: add.commute)
qed simp_all

lemma length_digest: "length (base64 (digest_bytes w)) = 44"
  by (simp add: length_base64 digest_bytes_def)

lemma verify_missing: "verifyShopifyHmac hmac rawBody None secret = Inr False"
  by (simp add: verifyShopifyHmac_def truthy_def)

lemma verify_empty: "verifyShopifyHmac hmac rawBody (Some []) secret = Inr False"
  by (simp add: verifyShopifyHmac_def truthy_def)

text \<open>
  C1. A claimed signature that is present but is not 44 bytes long (here \<open>abc\<close>) does not
  yield \<open>false\<close>: the comparison throws a \<open>RangeError\<close>, whatever the body, the secret and
  the keyed hash are. Only the absent and the empty signature return \<open>false\<close>.
\<close>

theorem verify_malformed_throws:
  "verifyShopifyHmac hmac rawBody (Some ''abc'') secret
     = Inl (RangeError ''Input buffers must have the same byte length'')"
  by (simp add: verifyShopifyHmac_def truthy_def timingSafeEqual_def length_digest Let_def)

section \<open>Payload builder: properties\<close>

lemma pushCandidate_acc: "pushCandidate m d acc c = acc @ pushCandidate m d [] c"
  by (simp add: pushCandidate_def Let_def)

lemma items_foldl:
  "foldl (pushCandidate m d) acc cs = acc @ concat (map (pushCandidate m d []) cs)"
proof (induction cs arbitrary: acc)
  case Nil
  show ?case by simp
next
  case (Cons c cs)
  have "foldl (pushCandidate m d) acc (c # cs) = foldl (pushCandidate m d) (pushCandidate m d acc c) cs"
    by simp
  also have "\<dots> = pushCandidate m d acc c @ concat (map (pushCandidate m d []) cs)"
    by (rule Cons.IH)
  also have "\<dots> = acc @ pushCandidate m d [] c @ concat (map (pushCandidate m d []) cs)"
    by (simp add: pushCandidate_acc [of m d acc c])
  finally show ?case by simp
qed

lemma items_concat:
  "items (buildKxOrderPayload ord cs m d) = concat (map (pushCandidate m d []) cs)"
  using items_foldl [of m d "[]" cs] by (simp add: buildKxOrderPayload_def)

lemma items_split:
  "items (buildKxOrderPayload ord (pre @ c # post) m d) =
     items (buildKxOrderPayload ord pre m d) @ pushCandidate m d [] c
       @ items (buildKxOrderPayload ord post m d)"
  by (simp add: items_concat)

lemma userFacingLoop_iff:
  "userFacingLoop ps \<longleftrightarrow>
     (\<exists>p \<in> set ps. trim (p_name p) \<noteq> [] \<and> trim (p_value p) \<noteq> []
        \<and> \<not> startsWith (trim (p_name p)) ''_'')"
  by (induction ps) (auto simp: Let_def)

lemma passthroughLoop_mono:
  "length attrs \<le> length (fst (passthroughLoop ps attrs seen))"
proof (induction ps arbitrary: attrs seen)
  case Nil
  show ?case by simp
next
  case (Cons p ps)
  let ?x = "\<lparr> p_name = trim (p_name p), p_value = trim (p_value p) \<rparr>"
  have grown: "length (attrs @ [?x]) \<le> length (fst (passthroughLoop ps (attrs @ [?x]) s'))" for s'
    by (rule Cons.IH)
  have push: "length attrs \<le> length (fst (passthroughLoop ps (attrs @ [?x]) s'))" for s'
    using grown [of s'] by simp
  have keep: "length attrs \<le> length (fst (passthroughLoop ps attrs seen))"
    by (rule Cons.IH)
  show ?case
    by (simp add: Let_def push keep)
qed

lemma passthroughLoop_nonempty:
  "userFacingLoop ps \<Longrightarrow> fst (passthroughLoop ps attrs {}) \<noteq> []"
proof (induction ps arbitrary: attrs)
  case Nil
  then show ?case by simp
next
  case (Cons p ps)
  let ?x = "\<lparr> p_name = trim (p_name p), p_value = trim (p_value p) \<rparr>"
  have "1 \<le> length (fst (passthroughLoop ps (attrs @ [?x]) {toLowerCase (trim (p_name p))}))"
    using passthroughLoop_mono [of "attrs @ [?x]" ps "{toLowerCase (trim (p_name p))}"] by simp
  then have "fst (passthroughLoop ps (attrs @ [?x]) {toLowerCase (trim (p_name p))}) \<noteq> []"
    by auto
  with Cons show ?case by (auto simp: Let_def split: if_splits)
qed

lemma passthroughAttributes_nonempty:
  "hasUserFacingProps l \<Longrightarrow> passthroughAttributes l t \<noteq> []"
  using passthroughLoop_nonempty [of "props_of l" "[]"]
  by (auto simp: hasUserFacingProps_def passthroughAttributes_def split: prod.splits)

lemma trim_Nil: "trim [] = []"
  by (simp add: trim_def)

lemma underscore_not_space: "\<not> isSpace CHR ''_''"
  by (simp add: isSpace_def)

lemma trim_underscore: "startsWith s ''_'' \<Longrightarrow> startsWith (trim s) ''_''"
proof -
  assume "startsWith s ''_''"
  then obtain t where s: "s = CHR ''_'' # t"
    by (cases s) (auto simp: startsWith_def)
  have "\<exists>zs. dropWhile isSpace (rev t @ [CHR ''_'']) = zs @ [CHR ''_'']"
    by (cases "\<forall>x \<in> set (rev t). isSpace x")
       (auto simp: dropWhile_append underscore_not_space)
  then obtain zs where "dropWhile isSpace (rev t @ [CHR ''_'']) = zs @ [CHR ''_'']" ..
  then show ?thesis
    by (simp add: s trim_def underscore_not_space startsWith_def)
qed

lemma plain_imp_trimmed:
  assumes "\<forall>p \<in> set ps. p_name p = [] \<or> p_value p = [] \<or> startsWith (p_name p) ''_''"
  shows "\<not> userFacingLoop ps"
  using assms by (auto simp: userFacingLoop_iff trim_Nil dest: trim_underscore)


lemmas example_defs = no_bits_def example_order_def print_job_line_def private_only_line_def
  zero_quantity_line_def negative_quantity_line_def blank_value_line_def

lemmas builder_defs = buildKxOrderPayload_def pushCandidate_def hasUserFacingProps_def
  passthroughAttributes_def attributesForType2_def props_of_def sku_or_empty_def
  quantity_or_1_def externalId_def truthy_def nullish_def trim_def isSpace_def
  toLowerCase_def lowerChar_def startsWith_def string_of_int_def Let_def

lemma pushCandidate_print_job:
  "truthy (printJobId (bits c)) \<Longrightarrow>
   \<exists>it. pushCandidate m d [] c = [it] \<and> kx_type it = 2
        \<and> print_job_ref it = printJobId (bits c) \<and> quantity it = quantity_or_1 (li c)"
  by (auto simp: pushCandidate_def Let_def truthy_def split: option.splits)

lemma pushCandidate_skip:
  "\<not> truthy (printJobId (bits c)) \<Longrightarrow> \<not> hasUserFacingProps (li c) \<Longrightarrow>
   pushCandidate m d [] c = []"
  by (simp add: pushCandidate_def Let_def)

lemma pushCandidate_textual:
  "\<not> truthy (printJobId (bits c)) \<Longrightarrow> hasUserFacingProps (li c) \<Longrightarrow>
   \<exists>it. pushCandidate m d [] c = [it] \<and> kx_type it = 5
        \<and> attributes it = passthroughAttributes (li c) (thumb (bits c))
        \<and> attributes it \<noteq> [] \<and> quantity it = quantity_or_1 (li c)"
  using passthroughAttributes_nonempty [of "li c" "thumb (bits c)"]
  by (simp add: pushCandidate_def Let_def)

text \<open>
  C5. Wherever a candidate stands in the list, the builder's items are those of the
  candidates before it, then what this candidate yields, then those of the candidates
  after it. A candidate with a non-empty \<open>printJobId\<close> yields exactly one item, of type 2
  (so never of type 5), whatever its properties are; a candidate with no \<open>printJobId\<close>
  and no user-facing property yields no item, both when the properties are judged as
  the code does (after trimming) and when they are judged as they stand.
\<close>

theorem payload_classification:
  "(truthy (printJobId (bits c)) \<longrightarrow>
      (\<exists>it. items (buildKxOrderPayload ord (pre @ c # post) m d)
               = items (buildKxOrderPayload ord pre m d) @ [it]
                   @ items (buildKxOrderPayload ord post m d)
            \<and> kx_type it = 2 \<and> kx_type it \<noteq> 5 \<and> print_job_ref it = printJobId (bits c)))
   \<and> (\<not> truthy (printJobId (bits c)) \<and> \<not> hasUserFacingProps (li c) \<longrightarrow>
        items (buildKxOrderPayload ord (pre @ c # post) m d)
          = items (buildKxOrderPayload ord pre m d) @ items (buildKxOrderPayload ord post m d))
   \<and> (\<not> truthy (printJobId (bits c))
        \<and> (\<forall>p \<in> set (props_of (li c)).
              p_name p = [] \<or> p_value p = [] \<or> startsWith (p_name p) ''_'') \<longrightarrow>
        items (buildKxOrderPayload ord (pre @ c # post) m d)
          = items (buildKxOrderPayload ord pre m d) @ items (buildKxOrderPayload ord post m d))"
proof (intro conjI impI)
  assume "truthy (printJobId (bits c))"
  then obtain it where "pushCandidate m d [] c = [it]" "kx_type it = 2"
      "print_job_ref it = printJobId (bits c)"
    using pushCandidate_print_job [of c m d] by blast
  then show "\<exists>it. items (buildKxOrderPayload ord (pre @ c # post) m d)
               = items (buildKxOrderPayload ord pre m d) @ [it]
                   @ items (buildKxOrderPayload ord post m d)
            \<and> kx_type it = 2 \<and> kx_type it \<noteq> 5 \<and> print_job_ref it = printJobId (bits c)"
    by (simp add: items_split)
next
  assume "\<not> truthy (printJobId (bits c)) \<and> \<not> hasUserFacingProps (li c)"
  then show "items (buildKxOrderPayload ord (pre @ c # post) m d)
          = items (buildKxOrderPayload ord pre m d) @ items (buildKxOrderPayload ord post m d)"
    by (simp add: items_split pushCandidate_skip)
next
  assume a: "\<not> truthy (printJobId (bits c))
        \<and> (\<forall>p \<in> set (props_of (li c)).
              p_name p = [] \<or> p_value p = [] \<or> startsWith (p_name p) ''_'')"
  then have "\<not> hasUserFacingProps (li c)"
    using plain_imp_trimmed [of "props_of (li c)"] by (simp add: hasUserFacingProps_def)
  with a show "items (buildKxOrderPayload ord (pre @ c # post) m d)
          = items (buildKxOrderPayload ord pre m d) @ items (buildKxOrderPayload ord post m d)"
    by (simp add: items_split pushCandidate_skip)
qed

theorem payload_classification_witness:
  "truthy (printJobId (bits print_job_line)) \<and> hasUserFacingProps (li print_job_line)
   \<and> (\<exists>it. items (buildKxOrderPayload example_order [private_only_line, print_job_line] None None)
              = [it] \<and> kx_type it = 2 \<and> print_job_ref it = Some ''PJ1'')
   \<and> \<not> truthy (printJobId (bits private_only_line))
   \<and> \<not> hasUserFacingProps (li private_only_line)
   \<and> props_of (li private_only_line) = [\<lparr> p_name = ''_note'', p_value = ''x'' \<rparr>]
   \<and> startsWith ''_note'' ''_''
   \<and> items (buildKxOrderPayload example_order [private_only_line] None None) = []"
proof -
  have pj: "truthy (printJobId (bits print_job_line))"
    by (simp add: example_defs truthy_def)
  have uf: "hasUserFacingProps (li print_job_line)"
    by (simp add: example_defs builder_defs)
  have np: "\<not> truthy (printJobId (bits private_only_line))"
    by (simp add: example_defs truthy_def)
  have nu: "\<not> hasUserFacingProps (li private_only_line)"
    by (simp add: example_defs builder_defs)
  have pl: "\<forall>p \<in> set (props_of (li private_only_line)).
          p_name p = [] \<or> p_value p = [] \<or> startsWith (p_name p) ''_''"
    by (simp add: example_defs builder_defs)
  have pid: "printJobId (bits print_job_line) = Some ''PJ1''"
    by (simp add: example_defs)
  have e: "items (buildKxOrderPayload example_order [] None None) = []"
    by (simp add: buildKxOrderPayload_def)
  have skip: "items (buildKxOrderPayload example_order [private_only_line] None None) = []"
    using payload_classification [of private_only_line example_order "[]" "[]" None None] np pl e
    by simp
  have one: "\<exists>it. items (buildKxOrderPayload example_order [private_only_line, print_job_line] None None)
              = [it] \<and> kx_type it = 2 \<and> print_job_ref it = Some ''PJ1''"
    using payload_classification [of print_job_line example_order "[private_only_line]" "[]" None None]
      pj skip e pid by auto
  have ps: "props_of (li private_only_line) = [\<lparr> p_name = ''_note'', p_value = ''x'' \<rparr>]"
    by (simp add: example_defs props_of_def)
  have us: "startsWith ''_note'' ''_''"
    by (simp add: startsWith_def)
  from pj uf np nu ps us skip one show ?thesis by blast
qed

text \<open>
  C7. A supplied quantity of 0 is not passed through: \<open>li.quantity || 1\<close> takes 0 for
  absent, and the item is built with quantity 1.
\<close>

theorem quantity_zero_counterexample:
  "li_quantity (li zero_quantity_line) = Some 0
   \<and> map quantity (items (buildKxOrderPayload example_order [zero_quantity_line] None None)) = [1]"
  by (simp add: example_defs builder_defs)

text \<open>
  C7, as the code has it. Every candidate that yields an item (it has a print job or a
  user-facing property) yields one whose quantity is 1 when the line's quantity is
  absent or 0, and is the supplied quantity otherwise, a negative one included.
\<close>

theorem quantity_default:
  assumes "truthy (printJobId (bits c)) \<or> hasUserFacingProps (li c)"
  shows "\<exists>it. items (buildKxOrderPayload ord (pre @ c # post) m d)
               = items (buildKxOrderPayload ord pre m d) @ [it]
                   @ items (buildKxOrderPayload ord post m d)
            \<and> quantity it =
                (case li_quantity (li c) of None \<Rightarrow> 1 | Some q \<Rightarrow> if q = 0 then 1 else q)"
proof (cases "truthy (printJobId (bits c))")
  case True
  then show ?thesis
    using pushCandidate_print_job [of c m d] by (auto simp: items_split quantity_or_1_def)
next
  case False
  with assms have "hasUserFacingProps (li c)" by simp
  with False show ?thesis
    using pushCandidate_textual [of c m d] by (auto simp: items_split quantity_or_1_def)
qed

theorem quantity_default_witness:
  "hasUserFacingProps (li negative_quantity_line)
   \<and> li_quantity (li negative_quantity_line) = Some (- 3)
   \<and> map quantity (items (buildKxOrderPayload example_order [negative_quantity_line] None None))
       = [- 3]"
proof -
  have uf: "hasUserFacingProps (li negative_quantity_line)"
    by (simp add: example_defs builder_defs)
  have q: "li_quantity (li negative_quantity_line) = Some (- 3)"
    by (simp add: example_defs)
  have e: "items (buildKxOrderPayload example_order [] None None) = []"
    by (simp add: buildKxOrderPayload_def)
  have "map quantity (items (buildKxOrderPayload example_order [negative_quantity_line] None None))
       = [- 3]"
    using quantity_default [where c = negative_quantity_line and ord = example_order
        and pre = "[]" and post = "[]" and m = None and d = None] uf q e
    by auto
  with uf q show ?thesis by simp
qed

text \<open>
  C10. A line whose only property has the name \<open>Text\<close> and a value of one space has a
  property with a non-empty name that does not start with an underscore and a non-empty
  value, and no \<open>printJobId\<close>; it yields no item, because names and values are trimmed
  before they are judged.
\<close>

theorem blank_value_counterexample:
  "li_properties (li blank_value_line) = Some [\<lparr> p_name = ''Text'', p_value = '' '' \<rparr>]
   \<and> ''Text'' \<noteq> [] \<and> \<not> startsWith ''Text'' ''_'' \<and> '' '' \<noteq> []
   \<and> printJobId (bits blank_value_line) = None
   \<and> items (buildKxOrderPayload example_order [blank_value_line] None None) = []"
  by (simp add: example_defs builder_defs)

text \<open>
  C10, as the code has it. A candidate with no \<open>printJobId\<close> and at least one property
  whose trimmed name is non-empty and does not start with an underscore and whose trimmed
  value is non-empty yields exactly one item, of type 5, whose attributes are those of
  \<open>passthroughAttributes\<close> and are not empty: the branch that drops a textual candidate
  with no attribute left is never taken.
\<close>

theorem textual_item:
  assumes "\<not> truthy (printJobId (bits c))"
    and "\<exists>p \<in> set (props_of (li c)).
           trim (p_name p) \<noteq> [] \<and> \<not> startsWith (trim (p_name p)) ''_'' \<and> trim (p_value p) \<noteq> []"
  shows "\<exists>it. items (buildKxOrderPayload ord (pre @ c # post) m d)
               = items (buildKxOrderPayload ord pre m d) @ [it]
                   @ items (buildKxOrderPayload ord post m d)
            \<and> kx_type it = 5
            \<and> attributes it = passthroughAttributes (li c) (thumb (bits c))
            \<and> attributes it \<noteq> []"
proof -
  from assms(2) have "hasUserFacingProps (li c)"
    by (auto simp: hasUserFacingProps_def userFacingLoop_iff)
  with assms(1) show ?thesis
    using pushCandidate_textual [of c m d] by (auto simp: items_split)
qed

theorem textual_item_witness:
  "\<not> truthy (printJobId (bits zero_quantity_line))
   \<and> props_of (li zero_quantity_line) = [\<lparr> p_name = ''Top line'', p_value = ''HELLO'' \<rparr>]
   \<and> trim ''Top line'' = ''Top line'' \<and> trim ''HELLO'' = ''HELLO''
   \<and> map kx_type (items (buildKxOrderPayload example_order [zero_quantity_line] None None)) = [5]
   \<and> map attributes (items (buildKxOrderPayload example_order [zero_quantity_line] None None))
        = [[\<lparr> p_name = ''Top line'', p_value = ''HELLO'' \<rparr>]]"
proof -
  have np: "\<not> truthy (printJobId (bits zero_quantity_line))"
    by (simp add: example_defs truthy_def)
  have ps: "props_of (li zero_quantity_line) = [\<lparr> p_name = ''Top line'', p_value = ''HELLO'' \<rparr>]"
    by (simp add: example_defs props_of_def)
  have t1: "trim ''Top line'' = ''Top line''" and t2: "trim ''HELLO'' = ''HELLO''"
    by (simp_all add: trim_def isSpace_def)
  have ex: "\<exists>p \<in> set (props_of (li zero_quantity_line)).
           trim (p_name p) \<noteq> [] \<and> \<not> startsWith (trim (p_name p)) ''_'' \<and> trim (p_value p) \<noteq> []"
    by (simp add: ps t1 t2 startsWith_def)
  have e: "items (buildKxOrderPayload example_order [] None None) = []"
    by (simp add: buildKxOrderPayload_def)
  have pa: "passthroughAttributes (li zero_quantity_line) (thumb (bits zero_quantity_line))
     = [\<lparr> p_name = ''Top line'', p_value = ''HELLO'' \<rparr>]"
    by (simp add: example_defs builder_defs)
  have "map kx_type (items (buildKxOrderPayload example_order [zero_quantity_line] None None)) = [5]
   \<and> map attributes (items (buildKxOrderPayload example_order [zero_quantity_line] None None))
        = [[\<lparr> p_name = ''Top line'', p_value = ''HELLO'' \<rparr>]]"
    using textual_item [OF np ex, where ord = example_order
        and pre = "[]" and post = "[]" and m = None and d = None] e pa by auto
  with np ps t1 t2 show ?thesis by simp
qed

section \<open>Bits extractor: properties\<close>

text \<open>
  C9. For every property list and every two key configurations, \<open>printJobId\<close> and \<open>thumb\<close>
  are the same: they are read from the fixed names \<open>_printJobId\<close>, \<open>_printjobid\<close>,
  \<open>print_job_ref\<close> and \<open>_thumb\<close>, \<open>_thumbnail\<close>, \<open>thumbnail\<close> only.
\<close>

theorem fixed_metadata_names:
  "printJobId (getDesignBits J (extractProps ps) cfg1)
     = printJobId (getDesignBits J (extractProps ps) cfg2)
   \<and> thumb (getDesignBits J (extractProps ps) cfg1)
     = thumb (getDesignBits J (extractProps ps) cfg2)"
  by (simp add: getDesignBits_def Let_def)










section \<open>Retry executor: properties\<close>

lemma retryLoop_done:
  "n < a \<Longrightarrow> retryLoop jd fn notify n base cap jit a lastErr s tr = (Inl lastErr, s, tr)"
  by (simp add: retryLoop.simps [of jd fn notify n base cap jit a])

lemma retryLoop_ok:
  "a \<le> n \<Longrightarrow> fn s = (Inr v, s1) \<Longrightarrow>
   retryLoop jd fn notify n base cap jit a lastErr s tr = (Inr v, s1, tr @ [Called a (Inr v)])"
  by (simp add: retryLoop.simps [of jd fn notify n base cap jit a])

lemma retryLoop_thrown:
  "a \<le> n \<Longrightarrow> fn s = (Inl err, s1) \<Longrightarrow> observe notify err a s1 = (Inl x, s2) \<Longrightarrow>
   retryLoop jd fn notify n base cap jit a lastErr s tr
     = (Inl x, s2, tr @ [Called a (Inl err)])"
  by (simp add: retryLoop.simps [of jd fn notify n base cap jit a])

lemma retryLoop_final:
  "fn s = (Inl err, s1) \<Longrightarrow> observe notify err n s1 = (Inr u, s2) \<Longrightarrow>
   retryLoop jd fn notify n base cap jit n lastErr s tr
     = (Inl (Some err), s2, tr @ [Called n (Inl err)])"
  by (simp add: retryLoop.simps [of jd fn notify n base cap jit n] Let_def)

lemma retryLoop_step:
  "a < n \<Longrightarrow> fn s = (Inl err, s1) \<Longrightarrow> observe notify err a s1 = (Inr u, s2) \<Longrightarrow>
   retryLoop jd fn notify n base cap jit a lastErr s tr
     = retryLoop jd fn notify n base cap jit (Suc a) (Some err) s2
         (tr @ [Called a (Inl err),
                Slept (backoffMs cap base a) (delayMs jd jit a (backoffMs cap base a))])"
  by (simp add: retryLoop.simps [of jd fn notify n base cap jit a] Let_def)

lemma calls_append: "calls (xs @ ys) = calls xs @ calls ys"
  by (induction xs rule: calls.induct) simp_all

text \<open>
  One induction over the loop gives the shape of the run, the origin of the outcomes it
  records, and that whatever the operation and the observer leave unchanged is unchanged
  in the end.
\<close>

lemma retryLoop_inv:
  fixes f :: "'s \<Rightarrow> 'b"
  shows "\<exists>ext. snd (snd (retryLoop jd fn notify n base cap jit a lastErr s tr)) = tr @ ext
      \<and> retryRun (\<not> quiet notify) n base cap a lastErr ext
           (fst (retryLoop jd fn notify n base cap jit a lastErr s tr))
      \<and> (\<forall>c \<in> set (calls ext). \<exists>s0. fst (fn s0) = c)
      \<and> ((\<forall>s0. f (snd (fn s0)) = f s0) \<and> (\<forall>err k s0. f (snd (observe notify err k s0)) = f s0)
           \<longrightarrow> f (fst (snd (retryLoop jd fn notify n base cap jit a lastErr s tr))) = f s)"
proof (induction "Suc n - a" arbitrary: a lastErr s tr)
  case 0
  then have "n < a" by simp
  then show ?case
    by (simp add: retryLoop_done run_done)
next
  case (Suc k)
  then have le: "a \<le> n" by simp
  obtain res s1 where f: "fn s = (res, s1)" by (cases "fn s")
  then have out: "\<exists>s0. fst (fn s0) = res"
    by (intro exI [of _ s]) simp
  from f have keep1: "(\<forall>s0. f (snd (fn s0)) = f s0) \<longrightarrow> f s1 = f s"
    by (metis snd_conv)
  show ?case
  proof (cases res)
    case (Inr v)
    with f have fs: "fn s = (Inr v, s1)" by simp
    have "retryRun (\<not> quiet notify) n base cap a lastErr [Called a (Inr v)] (Inr v)"
      by (rule run_ok [OF le])
    with out Inr keep1 show ?thesis
      by (simp add: retryLoop_ok [where fn = fn and s = s, OF le fs])
  next
    case (Inl err)
    with f have fs: "fn s = (Inl err, s1)" by simp
    obtain o2 s2 where ob: "observe notify err a s1 = (o2, s2)"
      by (cases "observe notify err a s1")
    then have keep2: "(\<forall>err k s0. f (snd (observe notify err k s0)) = f s0) \<longrightarrow> f s2 = f s1"
      by (metis snd_conv)
    show ?thesis
    proof (cases o2)
      case (Inl x)
      with ob have obx: "observe notify err a s1 = (Inl x, s2)" by simp
      then have "\<not> quiet notify"
        by (auto simp: quiet_def) (metis fst_conv sum.distinct(1))
      then have "retryRun (\<not> quiet notify) n base cap a lastErr [Called a (Inl err)] (Inl x)"
        using le by (intro run_thrown) simp_all
      with out \<open>res = Inl err\<close> keep1 keep2 show ?thesis
        by (simp add: retryLoop_thrown [where fn = fn and s = s, OF le fs obx])
    next
      case (Inr u)
      with ob have obu: "observe notify err a s1 = (Inr u, s2)" by simp
      show ?thesis
      proof (cases "a = n")
        case True
        have run: "retryRun (\<not> quiet notify) n base cap n lastErr [Called n (Inl err)]
                     (Inl (Some err))"
          by (rule run_last) simp
        from obu True have obn: "observe notify err n s1 = (Inr u, s2)" by simp
        from run out \<open>res = Inl err\<close> keep1 keep2 show ?thesis
          unfolding True
          by (simp add: retryLoop_final [where fn = fn and s = s, OF fs obn])
      next
        case False
        with le have lt: "a < n" by simp
        from Suc(2) lt have k: "k = Suc n - Suc a" by simp
        let ?b = "backoffMs cap base a"
        let ?d = "delayMs jd jit a ?b"
        let ?tr2 = "tr @ [Called a (Inl err), Slept ?b ?d]"
        define R where "R = retryLoop jd fn notify n base cap jit (Suc a) (Some err) s2 ?tr2"
        have step: "retryLoop jd fn notify n base cap jit a lastErr s tr = R"
          unfolding R_def by (rule retryLoop_step [where fn = fn and s = s, OF lt fs obu])
        from Suc(1) [OF k, of "Some err" s2 ?tr2]
        obtain ext where e: "snd (snd R) = ?tr2 @ ext"
          and r: "retryRun (\<not> quiet notify) n base cap (Suc a) (Some err) ext (fst R)"
          and o: "\<forall>c \<in> set (calls ext). \<exists>s0. fst (fn s0) = c"
          and p: "(\<forall>s0. f (snd (fn s0)) = f s0)
                    \<and> (\<forall>err k s0. f (snd (observe notify err k s0)) = f s0)
                  \<longrightarrow> f (fst (snd R)) = f s2"
          unfolding R_def by blast
        let ?ext = "Called a (Inl err) # Slept ?b ?d # ext"
        have e': "snd (snd R) = tr @ ?ext"
          using e by simp
        have r': "retryRun (\<not> quiet notify) n base cap a lastErr ?ext (fst R)"
          by (rule run_again [OF lt r])
        from out \<open>res = Inl err\<close> have "\<exists>s0. fst (fn s0) = Inl err" by simp
        with o have o': "\<forall>c \<in> set (calls ?ext). \<exists>s0. fst (fn s0) = c"
          by simp
        from p keep1 keep2
        have p': "(\<forall>s0. f (snd (fn s0)) = f s0)
                    \<and> (\<forall>err k s0. f (snd (observe notify err k s0)) = f s0)
                  \<longrightarrow> f (fst (snd R)) = f s"
          by simp
        from e' r' o' p' show ?thesis
          unfolding step by blast
      qed
    qed
  qed
qed

lemma retryRun_mono:
  "retryRun False n base cap a lastErr ext r \<Longrightarrow> retryRun thr n base cap a lastErr ext r"
  by (induction rule: retryRun.induct) (auto intro: retryRun.intros)

lemma run_calls_le:
  "retryRun thr n base cap a lastErr ext r \<Longrightarrow> length (calls ext) \<le> Suc n - a"
  by (induction rule: retryRun.induct) auto

lemma run_waits:
  "retryRun thr n base cap a lastErr ext r \<Longrightarrow>
   length (backoffs ext) = length (calls ext) - 1"
  by (induction rule: retryRun.induct) (auto elim: retryRun.cases)

lemma run_backoffs:
  "retryRun thr n base cap a lastErr ext r \<Longrightarrow>
   backoffs ext = map (backoffMs cap base) [a..<a + length (backoffs ext)]"
  by (induction rule: retryRun.induct) (auto simp: upt_rec)

lemma run_all_fail:
  "retryRun False n base cap a lastErr ext r \<Longrightarrow> \<forall>c \<in> set (calls ext). isl c \<Longrightarrow> a \<le> n \<Longrightarrow>
   length (calls ext) = Suc n - a \<and> r = Inl (Some (projl (last (calls ext))))"
  by (induction rule: retryRun.induct) (auto elim: retryRun.cases)

lemma run_success:
  "retryRun thr n base cap a lastErr ext r \<Longrightarrow> Inr v \<in> set (calls ext) \<Longrightarrow>
   r = Inr v \<and> last ext = Called (a + length (calls ext) - 1) (Inr v)
     \<and> (\<forall>c \<in> set (butlast (calls ext)). isl c)"
  by (induction rule: retryRun.induct) (auto elim: retryRun.cases)

lemma withRetry_run:
  assumes "withRetry jd fn opts s = (r, s', tr)"
  shows "retryRun (\<not> quiet (onRetry opts)) (or_default (attempts opts) 5)
           (or_default (baseMs opts) 1000) (or_default (maxMs opts) 8000) 1 None tr r"
    and "\<forall>c \<in> set (calls tr). \<exists>s0. fst (fn s0) = c"
  using retryLoop_inv [of jd fn "onRetry opts" "or_default (attempts opts) 5"
      "or_default (baseMs opts) 1000" "or_default (maxMs opts) 8000"
      "or_default (jitter opts) True" 1 None s "[]" "\<lambda>s. ()"] assms
  by (simp_all add: withRetry_def)

lemma withRetry_calls_le:
  assumes "withRetry jd fn opts s = (r, s', tr)"
  shows "length (calls tr) \<le> or_default (attempts opts) 5"
  using run_calls_le [OF withRetry_run(1) [OF assms]] by simp

lemma observer_run:
  "withRetry no_jitter always_failing throwing_observer 0
     = (Inl (Some 99), 1, [Called 1 (Inl 0)])"
  by (simp add: withRetry_def throwing_observer_def or_default_def always_failing_def
        retryLoop.simps observe_def)

text \<open>
  C6. With three attempts, an operation that always fails and an observer that throws,
  the first failure is the end of the run: the operation was called once, not three
  times, and what is thrown is the observer's value 99, not the error 0 of the last
  call. The observer is called inside the \<open>catch\<close> block with nothing around it.
\<close>

theorem observer_throws_counterexample:
  "or_default (attempts throwing_observer) 5 = 3
   \<and> fst (always_failing 0) = Inl 0
   \<and> fst (withRetry no_jitter always_failing throwing_observer 0) = Inl (Some 99)
   \<and> calls (snd (snd (withRetry no_jitter always_failing throwing_observer 0))) = [Inl 0]"
  by (simp add: observer_run) (simp add: throwing_observer_def or_default_def always_failing_def)

text \<open>
  C6, as the code has it. For every operation, state and options whose observer does not
  throw, with \<open>attempts\<close> a count of at most \<open>2 ^ 53\<close>: the operation is called at most
  \<open>attempts\<close> times; when every call fails there are exactly \<open>attempts\<close> calls and
  \<open>attempts - 1\<close> waits, and the error thrown is that of the last call (\<open>undefined\<close> when
  \<open>attempts\<close> is 0 and nothing was called); when a call succeeds its value is returned and
  it is the last event of the run, all calls before it having failed; the backoff
  computed before the \<open>k\<close>-th retry is \<open>min maxMs (baseMs * 2 ^ (k - 1))\<close>, except that it
  is \<open>NaN\<close> when \<open>baseMs\<close> is 0 and \<open>k\<close> is above 1024; and every outcome recorded for a
  call is an outcome of the operation.
\<close>

theorem withRetry_quiet_contract:
  assumes "withRetry jd fn opts s = (r, s', tr)"
    and "or_default (attempts opts) 5 \<le> 2 ^ 53"
    and "quiet (onRetry opts)"
  shows "length (calls tr) \<le> or_default (attempts opts) 5
    \<and> ((\<forall>c \<in> set (calls tr). isl c) \<longrightarrow>
          length (calls tr) = or_default (attempts opts) 5
          \<and> length (backoffs tr) = or_default (attempts opts) 5 - 1
          \<and> (or_default (attempts opts) 5 = 0 \<longrightarrow> r = Inl None)
          \<and> (0 < or_default (attempts opts) 5 \<longrightarrow> r = Inl (Some (projl (last (calls tr))))))
    \<and> (\<forall>v. Inr v \<in> set (calls tr) \<longrightarrow>
          r = Inr v \<and> last tr = Called (length (calls tr)) (Inr v)
          \<and> (\<forall>c \<in> set (butlast (calls tr)). isl c))
    \<and> backoffs tr
        = map (\<lambda>k. if or_default (baseMs opts) 1000 = 0 \<and> 1024 < k then None
                   else Some (min (or_default (maxMs opts) 8000)
                                (or_default (baseMs opts) 1000 * 2 ^ (k - 1))))
            [1..<length (calls tr)]
    \<and> (\<forall>c \<in> set (calls tr). \<exists>s0. fst (fn s0) = c)"
proof -
  let ?n = "or_default (attempts opts) 5"
  let ?base = "or_default (baseMs opts) 1000"
  let ?cap = "or_default (maxMs opts) 8000"
  from withRetry_run(1) [OF assms(1)] assms(3)
  have run: "retryRun False ?n ?base ?cap 1 None tr r"
    by simp
  have le: "length (calls tr) \<le> ?n"
    using run_calls_le [OF run] by simp
  have waits: "length (backoffs tr) = length (calls tr) - 1"
    by (rule run_waits [OF run])
  have fail: "length (calls tr) = ?n \<and> length (backoffs tr) = ?n - 1
      \<and> (?n = 0 \<longrightarrow> r = Inl None) \<and> (0 < ?n \<longrightarrow> r = Inl (Some (projl (last (calls tr)))))"
    if all: "\<forall>c \<in> set (calls tr). isl c"
  proof (cases "?n = 0")
    case True
    with run have "tr = [] \<and> r = Inl None"
      by (auto elim: retryRun.cases)
    with True show ?thesis by simp
  next
    case False
    then have "1 \<le> ?n" by simp
    from run_all_fail [OF run all this] waits False show ?thesis by simp
  qed
  have succ: "r = Inr v \<and> last tr = Called (length (calls tr)) (Inr v)
      \<and> (\<forall>c \<in> set (butlast (calls tr)). isl c)"
    if "Inr v \<in> set (calls tr)" for v
    using run_success [OF run that] by simp
  have "[1..<1 + length (backoffs tr)] = [1..<length (calls tr)]"
    using waits by (cases "length (calls tr)") simp_all
  with run_backoffs [OF run]
  have "backoffs tr = map (backoffMs ?cap ?base) [1..<length (calls tr)]"
    by simp
  moreover have "backoffMs ?cap ?base
      = (\<lambda>k. if ?base = 0 \<and> 1024 < k then None else Some (min ?cap (?base * 2 ^ (k - 1))))"
    by (rule ext) (auto simp: backoffMs_def)
  ultimately have bo: "backoffs tr
      = map (\<lambda>k. if ?base = 0 \<and> 1024 < k then None else Some (min ?cap (?base * 2 ^ (k - 1))))
          [1..<length (calls tr)]"
    by simp
  have outc: "\<forall>c \<in> set (calls tr). \<exists>s0. fst (fn s0) = c"
    by (rule withRetry_run(2) [OF assms(1)])
  from le fail succ bo outc show ?thesis by blast
qed

lemma flaky_run:
  "withRetry no_jitter flaky three_attempts 0
     = (Inr 42, 3, [Called 1 (Inl ''timeout''), Slept (Some 1000) (Some 1000),
                    Called 2 (Inl ''timeout''), Slept (Some 1500) (Some 1500),
                    Called 3 (Inr 42)])"
  by (simp add: withRetry_def three_attempts_def or_default_def flaky_def retryLoop.simps
        no_jitter_def observe_def backoffMs_def delayMs_def Let_def)

lemma failing_run:
  "withRetry no_jitter always_failing three_attempts 0
     = (Inl (Some 2), 3, [Called 1 (Inl 0), Slept (Some 1000) (Some 1000),
                    Called 2 (Inl 1), Slept (Some 1500) (Some 1500), Called 3 (Inl 2)])"
  by (simp add: withRetry_def three_attempts_def or_default_def always_failing_def retryLoop.simps
        no_jitter_def observe_def backoffMs_def delayMs_def Let_def)

lemma three_attempts_quiet: "quiet (onRetry three_attempts)"
  by (simp add: quiet_def observe_def three_attempts_def)

theorem withRetry_quiet_contract_witness:
  "withRetry no_jitter flaky three_attempts 0
     = (Inr 42, 3, [Called 1 (Inl ''timeout''), Slept (Some 1000) (Some 1000),
                    Called 2 (Inl ''timeout''), Slept (Some 1500) (Some 1500),
                    Called 3 (Inr 42)])
   \<and> withRetry no_jitter always_failing three_attempts 0
     = (Inl (Some 2), 3, [Called 1 (Inl 0), Slept (Some 1000) (Some 1000),
                    Called 2 (Inl 1), Slept (Some 1500) (Some 1500), Called 3 (Inl 2)])
   \<and> length (calls (snd (snd (withRetry no_jitter always_failing three_attempts 0)))) = 3
   \<and> length (backoffs (snd (snd (withRetry no_jitter always_failing three_attempts 0)))) = 2
   \<and> fst (withRetry no_jitter always_failing three_attempts 0) = Inl (Some 2)
   \<and> fst (withRetry no_jitter flaky three_attempts 0) = Inr 42
   \<and> backoffs (snd (snd (withRetry no_jitter flaky three_attempts 0))) = [Some 1000, Some 1500]"
proof -
  let ?f = "[Called 1 (Inl 0), Slept (Some 1000) (Some 1000), Called 2 (Inl 1),
             Slept (Some 1500) (Some 1500), Called 3 (Inl (2::nat))] :: (nat, nat) retry_event list"
  let ?g = "[Called 1 (Inl ''timeout''), Slept (Some 1000) (Some 1000),
             Called 2 (Inl ''timeout''), Slept (Some 1500) (Some 1500),
             Called 3 (Inr (42::nat))] :: (string, nat) retry_event list"
  have allf: "\<forall>c \<in> set (calls ?f). isl c" by simp
  have n3: "or_default (attempts (three_attempts :: ('e, nat) RetryOptions)) 5 = 3"
    by (simp add: three_attempts_def or_default_def)
  have b3: "or_default (attempts (three_attempts :: ('e, nat) RetryOptions)) 5 \<le> 2 ^ 53"
    by (simp add: n3)
  from withRetry_quiet_contract [OF failing_run b3 three_attempts_quiet] allf n3
  have f: "length (calls ?f) = 3 \<and> length (backoffs ?f) = 2
           \<and> Inl (Some 2) = Inl (Some (projl (last (calls ?f))))"
    by simp
  have "Inr 42 \<in> set (calls ?g)" by simp
  with withRetry_quiet_contract [OF flaky_run b3 three_attempts_quiet]
  have g: "backoffs ?g = [Some 1000, Some 1500]"
    by simp
  from f g show ?thesis
    by (simp add: flaky_run failing_run)
qed

section \<open>Worker: properties\<close>

lemma post_PROCESSED: "PROCESSED (snd (postKornitXOrder e b c k p w)) = PROCESSED w"
  by (simp add: postKornitXOrder_def Let_def split: sum.splits)

lemma withRetry_preserves:
  assumes "\<And>s0. f (snd (fn s0)) = f s0"
    and "\<And>err k s0. f (snd (observe (onRetry opts) err k s0)) = f s0"
  shows "f (fst (snd (withRetry jd fn opts s))) = f s"
  using retryLoop_inv [of jd fn "onRetry opts" "or_default (attempts opts) 5"
      "or_default (baseMs opts) 1000" "or_default (maxMs opts) 8000"
      "or_default (jitter opts) True" 1 None s "[]" f] assms
  by (auto simp: withRetry_def)

lemma submit_PROCESSED: "PROCESSED (snd (submitWithRetry e secrets p w)) = PROCESSED w"
proof -
  let ?fn = "postKornitXOrder e (KX_BASE_URL e) (kxCompanyRefId secrets) (kxApiKey secrets) p"
  let ?opts = "\<lparr> attempts = Some 5, baseMs = Some 1000, maxMs = Some 8000, jitter = None,
                 onRetry = Some (\<lambda>err attempt s. (Inr (), s)) \<rparr> :: (error, world) RetryOptions"
  obtain r w1 tr where wr: "withRetry (jitterMs e) ?fn ?opts w = (r, w1, tr)"
    by (cases "withRetry (jitterMs e) ?fn ?opts w")
  have "PROCESSED (fst (snd (withRetry (jitterMs e) ?fn ?opts w))) = PROCESSED w"
    by (rule withRetry_preserves) (simp_all add: post_PROCESSED observe_def)
  with wr have "PROCESSED w1 = PROCESSED w" by simp
  then show ?thesis
    by (simp add: submitWithRetry_def wr Let_def split: sum.splits)
qed

lemma submit_PROCESSED_eq:
  "submitWithRetry e secrets p w = (r, w') \<Longrightarrow> PROCESSED w' = PROCESSED w"
  using submit_PROCESSED [of e secrets p w] by simp

lemma processRecord_error_PROCESSED:
  "processRecord e m w = (Inl err, w') \<Longrightarrow> PROCESSED w' = PROCESSED w"
  by (auto simp: processRecord_def Let_def dest: submit_PROCESSED_eq
        split: if_splits option.splits sum.splits prod.splits)

lemma processRecord_submit:
  assumes "\<not> isProcessed w (shopDomain m) (order_id (msg_order m))"
    and "getClientBySlug e (slug m) = Some client"
    and "getClientSecrets e (secretName m) = Inr secrets"
    and "getProductIdsForSkus e (slug m) (collectSkus (candidates m)) = Inr skuToProductId"
    and "filter isPersonalised (candidates m) \<noteq> []"
    and "missingSkus (filter isPersonalised (candidates m)) skuToProductId = []"
    and "items (buildKxOrderPayload (msg_order m) (candidates m) (Some skuToProductId) None) \<noteq> []"
  shows "processRecord e m w =
     (case submitWithRetry e secrets
             (buildKxOrderPayload (msg_order m) (candidates m) (Some skuToProductId) None) w of
        (Inl err, w1) \<Rightarrow> (Inl err, w1)
      | (Inr kxResp, w1) \<Rightarrow>
          (Inr (), markProcessed e (shopDomain m) (order_id (msg_order m))
                     (externalId (msg_order m)) w1))"
  using assms by (simp add: processRecord_def Let_def)

lemma demo_env_fields:
  "CLIENTS demo_env ''acme'' = Some \<lparr> client_slug = ''acme'', client_shopDomain = ''acme.myshopify.com'',
                                        client_secretName = ''acme/secret'' \<rparr>"
  "clientSecrets demo_env ''acme/secret'' = Inr demo_secrets"
  "batchGet demo_env sl keys = Inr (if ''abc-1'' \<in> set keys
                                     then [\<lparr> item_sku = ''abc-1'', item_product_id = Some 42 \<rparr>]
                                     else [])"
  "fetch demo_env k req = Inr ok_response"
  "now demo_env = ''2025-01-01T00:00:00.000Z''"
  "jitterMs demo_env = no_jitter"
  "KX_BASE_URL demo_env = None"
  by (simp_all add: demo_env_def)

lemma failing_env_fields:
  "CLIENTS failing_env ''acme'' = Some \<lparr> client_slug = ''acme'', client_shopDomain = ''acme.myshopify.com'',
                                        client_secretName = ''acme/secret'' \<rparr>"
  "clientSecrets failing_env ''acme/secret'' = Inr demo_secrets"
  "batchGet failing_env sl keys = Inr (if ''abc-1'' \<in> set keys
                                     then [\<lparr> item_sku = ''abc-1'', item_product_id = Some 42 \<rparr>]
                                     else [])"
  "fetch failing_env k req = Inr error_response"
  "now failing_env = ''2025-01-01T00:00:00.000Z''"
  "jitterMs failing_env = no_jitter"
  "KX_BASE_URL failing_env = None"
  by (simp_all add: failing_env_def demo_env_def)

lemma demo_auth: "base64 (map of_char ''77:key'') = ''Nzc6a2V5''"
  by (simp add: b64_char_def b64_alphabet_def)

lemma failing_post:
  "postKornitXOrder failing_env None ''77'' ''key'' p w
     = (Inl (Error ''KX 500 Server Error - down''),
        w\<lparr> kx_requests := kx_requests w @ [demo_request p] \<rparr>)"
  using demo_auth
  by (simp add: postKornitXOrder_def failing_env_fields truthy_def Let_def
        error_response_def or_default_def string_of_nat.simps digit_def demo_request_def)

lemma ok_post:
  "postKornitXOrder demo_env None ''77'' ''key'' p w
     = (Inr (JObj []), w\<lparr> kx_requests := kx_requests w @ [demo_request p] \<rparr>)"
  using demo_auth
  by (simp add: postKornitXOrder_def demo_env_fields truthy_def Let_def
        ok_response_def demo_request_def)

lemma failing_submit:
  "submitWithRetry failing_env demo_secrets p w
     = (Inl (Error ''KX 500 Server Error - down''),
        w\<lparr> kx_requests := kx_requests w @ [demo_request p, demo_request p, demo_request p,
                                                 demo_request p, demo_request p],
           slept := slept w @ [1000, 2000, 4000, 8000] \<rparr>)"
  by (simp add: submitWithRetry_def withRetry_def or_default_def failing_env_fields
        demo_secrets_def failing_post retryLoop.simps thrown_def no_jitter_def
        observe_def backoffMs_def delayMs_def timeoutMs_def Let_def)

lemma ok_submit:
  "submitWithRetry demo_env demo_secrets p w
     = (Inr (JObj []), w\<lparr> kx_requests := kx_requests w @ [demo_request p] \<rparr>)"
  by (simp add: submitWithRetry_def withRetry_def or_default_def demo_env_fields
        demo_secrets_def ok_post retryLoop.simps thrown_def observe_def)

lemma demo_msg_fields:
  "slug (demo_msg cs) = ''acme''"
  "shopDomain (demo_msg cs) = ''acme.myshopify.com''"
  "secretName (demo_msg cs) = ''acme/secret''"
  "msg_order (demo_msg cs) = example_order"
  "candidates (demo_msg cs) = cs"
  by (simp_all add: demo_msg_def)

lemma not_processed_empty: "\<not> isProcessed empty_world sd oid"
  by (simp add: isProcessed_def empty_world_def)

lemma example_key: "shopOrderKey ''acme.myshopify.com'' 1001 = ''acme.myshopify.com#1001''"
  by (simp add: shopOrderKey_def string_of_int_def string_of_nat.simps digit_def)

lemma no_sku_facts:
  "isPersonalised no_sku_line"
  "toLowerCase (trim (sku_or_empty (li no_sku_line))) = []"
  "collectSkus [no_sku_line] = []"
  "pushCandidate (Some Map.empty) None [] no_sku_line
     = [\<lparr> external_ref = ''16'', quantity = 1, kx_type = 2, print_job_ref = Some ''PJ1'',
          sku = None, description = ''Mug'', textual_product_id = None, attributes = [] \<rparr>]"
  by (simp_all add: no_sku_line_def no_bits_def isPersonalised_def truthy_def sku_or_empty_def
        trim_def toLowerCase_def collectSkus_def pushCandidate_def nullish_def quantity_or_1_def
        attributesForType2_def string_of_int_def string_of_nat.simps digit_def Let_def
        obj_get_def objectPrototypeNames_def)

lemma print_job_facts:
  "isPersonalised print_job_line"
  "toLowerCase (trim (sku_or_empty (li print_job_line))) = ''abc-1''"
  "collectSkus [print_job_line] = [''ABC-1'']"
  "truthy (printJobId (bits print_job_line))"
  by (simp_all add: print_job_line_def no_bits_def isPersonalised_def truthy_def sku_or_empty_def
        trim_def isSpace_def toLowerCase_def lowerChar_def collectSkus_def Let_def)

lemma print_job_map:
  "getProductIdsForSkus failing_env ''acme'' [''ABC-1''] = Inr [''abc-1'' \<mapsto> 42]"
  by (simp add: getProductIdsForSkus_def failing_env_fields addSkuItem_def trim_def isSpace_def
        toLowerCase_def lowerChar_def Let_def obj_set_def)

lemma no_skus_map: "getProductIdsForSkus e sl [] = Inr Map.empty"
  by (simp add: getProductIdsForSkus_def)

lemma unmapped_facts:
  "isPersonalised unmapped_line"
  "toLowerCase (trim (sku_or_empty (li unmapped_line))) = ''xyz-9''"
  "collectSkus [unmapped_line] = [''XYZ-9'']"
  by (simp_all add: unmapped_line_def no_bits_def isPersonalised_def truthy_def sku_or_empty_def
        trim_def isSpace_def toLowerCase_def lowerChar_def collectSkus_def
        workerHasUserFacingProps_def props_of_def startsWith_def Let_def)

lemma unmapped_map: "getProductIdsForSkus demo_env ''acme'' [''XYZ-9''] = Inr Map.empty"
  by (simp add: getProductIdsForSkus_def demo_env_fields trim_def isSpace_def
        toLowerCase_def lowerChar_def Let_def)

text \<open>
  C4. When the key of the message's shop domain and order id is in the table of
  processed orders, the record is done at once and the world is returned as it was: no
  request is sent to the partner API and the table is not written.
\<close>

theorem already_processed_noop:
  assumes "PROCESSED w (shopOrderKey (shopDomain m) (order_id (msg_order m))) = Some item"
  shows "isProcessed w (shopDomain m) (order_id (msg_order m))
    \<and> processRecord e m w = (Inr (), w)
    \<and> kx_requests (snd (processRecord e m w)) = kx_requests w
    \<and> PROCESSED (snd (processRecord e m w)) = PROCESSED w"
  using assms by (simp add: processRecord_def isProcessed_def)

theorem already_processed_noop_witness:
  "PROCESSED processed_world (shopOrderKey ''acme.myshopify.com'' 1001)
     = Some \<lparr> kxExternalId = ''#1001'', processedAt = ''2024-12-31T23:59:59.000Z'' \<rparr>
   \<and> processRecord demo_env (demo_msg [print_job_line]) processed_world = (Inr (), processed_world)"
proof -
  have k: "PROCESSED processed_world
             (shopOrderKey (shopDomain (demo_msg [print_job_line]))
                (order_id (msg_order (demo_msg [print_job_line]))))
     = Some \<lparr> kxExternalId = ''#1001'', processedAt = ''2024-12-31T23:59:59.000Z'' \<rparr>"
    by (simp add: demo_msg_def example_order_def example_key processed_world_def empty_world_def)
  from already_processed_noop [OF k, of demo_env] k show ?thesis
    by (simp add: demo_msg_def example_order_def)
qed

text \<open>
  A SKU that names a member of \<open>Object.prototype\<close> is never missing: the lookup finds the
  inherited member, which is not \<open>null\<close>.
\<close>

lemma inherited_name_not_missing:
  "isPersonalised constructor_line"
  "toLowerCase (trim (sku_or_empty (li constructor_line))) = ''constructor''"
  "obj_get Map.empty ''constructor'' = Some (Inherited ''constructor'')"
  "missingSkus [constructor_line] Map.empty = []"
  by (simp_all add: constructor_line_def no_bits_def isPersonalised_def truthy_def
        sku_or_empty_def trim_def isSpace_def toLowerCase_def lowerChar_def missingSkus_def
        obj_get_def objectPrototypeNames_def Let_def)

text \<open>
  C2. A personalised candidate with no SKU has the normalized SKU \<open>''\<close>, which is not a key
  of the resolved map (here the empty map); the worker does not fail: the empty SKU is
  left out of the missing list, the payload is submitted with no product id for the
  item, and the record succeeds.
\<close>

theorem empty_sku_counterexample:
  "isPersonalised no_sku_line
   \<and> toLowerCase (trim (sku_or_empty (li no_sku_line))) = []
   \<and> getProductIdsForSkus demo_env ''acme'' (collectSkus [no_sku_line]) = Inr Map.empty
   \<and> fst (processRecord demo_env (demo_msg [no_sku_line]) empty_world) = Inr ()
   \<and> map (map textual_product_id \<circ> items \<circ> body)
        (kx_requests (snd (processRecord demo_env (demo_msg [no_sku_line]) empty_world)))
       = [[None]]"
proof -
  let ?m = "demo_msg [no_sku_line]"
  have mp: "getProductIdsForSkus demo_env ''acme'' (collectSkus [no_sku_line]) = Inr Map.empty"
    by (simp add: no_sku_facts no_skus_map)
  have its: "items (buildKxOrderPayload example_order [no_sku_line] (Some Map.empty) None)
     = [\<lparr> external_ref = ''16'', quantity = 1, kx_type = 2, print_job_ref = Some ''PJ1'',
          sku = None, description = ''Mug'', textual_product_id = None, attributes = [] \<rparr>]"
    by (simp add: items_concat no_sku_facts)
  have "processRecord demo_env ?m empty_world =
     (case submitWithRetry demo_env demo_secrets
             (buildKxOrderPayload (msg_order ?m) (candidates ?m) (Some Map.empty) None) empty_world of
        (Inl err, w1) \<Rightarrow> (Inl err, w1)
      | (Inr kxResp, w1) \<Rightarrow>
          (Inr (), markProcessed demo_env (shopDomain ?m) (order_id (msg_order ?m))
                     (externalId (msg_order ?m)) w1))"
    by (rule processRecord_submit [where client = "the (CLIENTS demo_env ''acme'')"])
       (simp_all add: demo_msg_fields not_processed_empty getClientBySlug_def getClientSecrets_def
          demo_env_fields no_skus_map no_sku_facts missingSkus_def its)
  then have "processRecord demo_env ?m empty_world =
      (Inr (), markProcessed demo_env ''acme.myshopify.com'' (order_id example_order)
                 (externalId example_order)
                 (empty_world\<lparr> kx_requests := kx_requests empty_world @
                     [demo_request (buildKxOrderPayload example_order [no_sku_line]
                                      (Some Map.empty) None)] \<rparr>))"
    by (simp add: ok_submit demo_msg_fields)
  then show ?thesis
    by (simp add: no_sku_facts no_skus_map markProcessed_def empty_world_def demo_request_def its)
qed

text \<open>
  C2, as the code has it. When the message is not yet processed, the client and its
  secrets are found and the SKU map is resolved, a personalised candidate whose
  normalized SKU is not empty, is not the name of a member of \<open>Object.prototype\<close> and
  is absent from the map makes the worker fail with the missing-mapping error, which
  lists this SKU; the world is returned as it was, so nothing was submitted and nothing
  was marked.
\<close>

theorem missing_mapping_fails:
  assumes "\<not> isProcessed w (shopDomain m) (order_id (msg_order m))"
    and "getClientBySlug e (slug m) = Some client"
    and "getClientSecrets e (secretName m) = Inr secrets"
    and "getProductIdsForSkus e (slug m) (collectSkus (candidates m)) = Inr skuToProductId"
    and "c \<in> set (candidates m)"
    and "isPersonalised c"
    and "toLowerCase (trim (sku_or_empty (li c))) \<noteq> []"
    and "toLowerCase (trim (sku_or_empty (li c))) \<notin> set objectPrototypeNames"
    and "skuToProductId (toLowerCase (trim (sku_or_empty (li c)))) = None"
  shows "processRecord e m w
           = (Inl (Error (''Missing product_id mapping: ''
                 @ join '', '' (missingSkus (filter isPersonalised (candidates m)) skuToProductId))), w)
    \<and> toLowerCase (trim (sku_or_empty (li c)))
        \<in> set (missingSkus (filter isPersonalised (candidates m)) skuToProductId)"
proof -
  from assms(5,6) have p: "c \<in> set (filter isPersonalised (candidates m))" by simp
  from assms(8,9)
  have "obj_get skuToProductId (toLowerCase (trim (sku_or_empty (li c)))) = None"
    by (simp add: obj_get_def)
  with p assms(7)
  have mem: "toLowerCase (trim (sku_or_empty (li c)))
        \<in> set (missingSkus (filter isPersonalised (candidates m)) skuToProductId)"
    by (auto simp: missingSkus_def)
  then have ne: "missingSkus (filter isPersonalised (candidates m)) skuToProductId \<noteq> []"
    by auto
  have pne: "filter isPersonalised (candidates m) \<noteq> []"
    by (metis p empty_iff list.set(1))
  from assms(1-4) ne pne mem show ?thesis
    by (simp add: processRecord_def Let_def)
qed

theorem missing_mapping_fails_witness:
  "isPersonalised unmapped_line
   \<and> toLowerCase (trim (sku_or_empty (li unmapped_line))) = ''xyz-9''
   \<and> ''xyz-9'' \<notin> set objectPrototypeNames
   \<and> getProductIdsForSkus demo_env ''acme'' (collectSkus [unmapped_line]) = Inr Map.empty
   \<and> processRecord demo_env (demo_msg [unmapped_line]) empty_world
       = (Inl (Error ''Missing product_id mapping: xyz-9''), empty_world)"
proof -
  let ?m = "demo_msg [unmapped_line]"
  have a1: "\<not> isProcessed empty_world (shopDomain ?m) (order_id (msg_order ?m))"
    by (rule not_processed_empty)
  have a2: "getClientBySlug demo_env (slug ?m) = Some (the (CLIENTS demo_env ''acme''))"
    by (simp add: getClientBySlug_def demo_msg_fields demo_env_fields)
  have a3: "getClientSecrets demo_env (secretName ?m) = Inr demo_secrets"
    by (simp add: getClientSecrets_def demo_msg_fields demo_env_fields)
  have a4: "getProductIdsForSkus demo_env (slug ?m) (collectSkus (candidates ?m)) = Inr Map.empty"
    by (simp add: demo_msg_fields unmapped_facts unmapped_map)
  have a5: "unmapped_line \<in> set (candidates ?m)"
    by (simp add: demo_msg_fields)
  have a7: "toLowerCase (trim (sku_or_empty (li unmapped_line))) \<noteq> []"
    by (simp add: unmapped_facts)
  have a8: "toLowerCase (trim (sku_or_empty (li unmapped_line))) \<notin> set objectPrototypeNames"
    by (simp add: unmapped_facts objectPrototypeNames_def)
  have a9: "Map.empty (toLowerCase (trim (sku_or_empty (li unmapped_line)))) = (None :: int option)"
    by simp
  have ms: "missingSkus (filter isPersonalised (candidates ?m)) Map.empty = [''xyz-9'']"
    by (simp add: demo_msg_fields unmapped_facts missingSkus_def obj_get_def
          objectPrototypeNames_def)
  from missing_mapping_fails [OF a1 a2 a3 a4 a5 unmapped_facts(1) a7 a8 a9]
  have "processRecord demo_env ?m empty_world
          = (Inl (Error ''Missing product_id mapping: xyz-9''), empty_world)"
    by (simp add: ms)
  with a4 a8 show ?thesis
    by (simp add: unmapped_facts demo_msg_fields)
qed

text \<open>
  C3. When the worker reaches the submission and the retried submission ends in an
  error, the worker throws this error; the table of processed orders is as it was
  before, and the order is still not processed, so a redelivery of the message goes
  through the same steps again.
\<close>

theorem submission_failure_not_marked:
  assumes "\<not> isProcessed w (shopDomain m) (order_id (msg_order m))"
    and "getClientBySlug e (slug m) = Some client"
    and "getClientSecrets e (secretName m) = Inr secrets"
    and "getProductIdsForSkus e (slug m) (collectSkus (candidates m)) = Inr skuToProductId"
    and "filter isPersonalised (candidates m) \<noteq> []"
    and "missingSkus (filter isPersonalised (candidates m)) skuToProductId = []"
    and "items (buildKxOrderPayload (msg_order m) (candidates m) (Some skuToProductId) None) \<noteq> []"
    and "submitWithRetry e secrets
           (buildKxOrderPayload (msg_order m) (candidates m) (Some skuToProductId) None) w
         = (Inl err, w1)"
  shows "processRecord e m w = (Inl err, w1)
    \<and> PROCESSED w1 = PROCESSED w
    \<and> \<not> isProcessed w1 (shopDomain m) (order_id (msg_order m))"
proof -
  from assms have run: "processRecord e m w = (Inl err, w1)"
    by (simp add: processRecord_def Let_def)
  from submit_PROCESSED_eq [OF assms(8)] have same: "PROCESSED w1 = PROCESSED w" .
  with assms(1) have "\<not> isProcessed w1 (shopDomain m) (order_id (msg_order m))"
    by (simp add: isProcessed_def)
  with run same show ?thesis by simp
qed

theorem submission_failure_not_marked_witness:
  "fst (processRecord failing_env (demo_msg [print_job_line]) empty_world)
     = Inl (Error ''KX 500 Server Error - down'')
   \<and> PROCESSED (snd (processRecord failing_env (demo_msg [print_job_line]) empty_world))
       = PROCESSED empty_world
   \<and> length (kx_requests (snd (processRecord failing_env (demo_msg [print_job_line]) empty_world)))
       = 5
   \<and> slept (snd (processRecord failing_env (demo_msg [print_job_line]) empty_world))
       = [1000, 2000, 4000, 8000]"
proof -
  let ?m = "demo_msg [print_job_line]"
  let ?p = "buildKxOrderPayload (msg_order ?m) (candidates ?m) (Some [''abc-1'' \<mapsto> 42]) None"
  let ?w1 = "empty_world\<lparr> kx_requests := kx_requests empty_world @
                 [demo_request ?p, demo_request ?p, demo_request ?p, demo_request ?p,
                  demo_request ?p],
               slept := slept empty_world @ [1000, 2000, 4000, 8000] \<rparr>"
  have a1: "\<not> isProcessed empty_world (shopDomain ?m) (order_id (msg_order ?m))"
    by (rule not_processed_empty)
  have a2: "getClientBySlug failing_env (slug ?m) = Some (the (CLIENTS failing_env ''acme''))"
    by (simp add: getClientBySlug_def demo_msg_fields failing_env_fields)
  have a3: "getClientSecrets failing_env (secretName ?m) = Inr demo_secrets"
    by (simp add: getClientSecrets_def demo_msg_fields failing_env_fields)
  have a4: "getProductIdsForSkus failing_env (slug ?m) (collectSkus (candidates ?m))
              = Inr [''abc-1'' \<mapsto> 42]"
    by (simp add: demo_msg_fields print_job_facts print_job_map)
  have a5: "filter isPersonalised (candidates ?m) \<noteq> []"
    by (simp add: demo_msg_fields print_job_facts)
  have a6: "missingSkus (filter isPersonalised (candidates ?m)) [''abc-1'' \<mapsto> 42] = []"
    by (simp add: demo_msg_fields print_job_facts missingSkus_def obj_get_def)
  have a7: "items ?p \<noteq> []"
    using pushCandidate_print_job [OF print_job_facts(4), of "Some [''abc-1'' \<mapsto> 42]" None]
    by (auto simp: demo_msg_fields items_concat)
  have a8: "submitWithRetry failing_env demo_secrets ?p empty_world
              = (Inl (Error ''KX 500 Server Error - down''), ?w1)"
    by (rule failing_submit)
  from submission_failure_not_marked [OF a1 a2 a3 a4 a5 a6 a7 a8]
  show ?thesis
    by (simp add: empty_world_def)
qed

end
